theory Spec2Isabelle
  imports Complex_Main "HOL-Library.Log_Nat"
begin

section \<open>JavaScript values used by the scripts\<close>

text \<open>
  The records read from the JSON fixtures have optional string fields. A field is
  modelled as a \<open>string option\<close>: \<open>None\<close> is an absent property (reading it gives
  \<open>undefined\<close>), \<open>Some s\<close> a string. The scripts test fields by truthiness, where
  the empty string counts as false.
\<close>

type_synonym field = "string option"

fun truthy :: "field \<Rightarrow> bool" where
  "truthy None = False"
| "truthy (Some s) = (s \<noteq> [])"

text \<open>\<open>a || d\<close> with a string default \<open>d\<close>.\<close>

fun js_or :: "field \<Rightarrow> string \<Rightarrow> string" where
  "js_or None d = d"
| "js_or (Some s) d = (if s = [] then d else s)"

text \<open>\<open>a || b\<close> between two fields: the first when truthy, else the second.\<close>

definition js_or_field :: "field \<Rightarrow> field \<Rightarrow> field" where
  "js_or_field a b = (if truthy a then a else b)"

text \<open>A field interpolated into a template literal: \<open>undefined\<close> prints as such.\<close>

fun template :: "field \<Rightarrow> string" where
  "template None = ''undefined''"
| "template (Some s) = s"

text \<open>Assigning a field to \<open>textContent\<close>: \<open>undefined\<close> becomes the empty string.\<close>

fun as_textContent :: "field \<Rightarrow> string" where
  "as_textContent None = []"
| "as_textContent (Some s) = s"

text \<open>
  \<open>Array.prototype.splice(start, deleteCount)\<close> on an integer start: a negative start
  counts from the end, both bounds are clamped to the array.
\<close>

definition splice :: "int \<Rightarrow> int \<Rightarrow> 'a list \<Rightarrow> 'a list" where
  "splice start deleteCount xs =
     (let len = int (length xs);
          actualStart = (if start < 0 then max (len + start) 0 else min start len);
          actualDeleteCount = min (max deleteCount 0) (len - actualStart)
      in take (nat actualStart) xs @ drop (nat (actualStart + actualDeleteCount)) xs)"

text \<open>\<open>forEach((x, index) => ...)\<close> visits the elements with their positions.\<close>

definition indexed :: "'a list \<Rightarrow> (nat \<times> 'a) list" where
  "indexed xs = zip [0..<length xs] xs"

text \<open>
  The outcome of \<open>fetch\<close> followed by \<open>json()\<close>: the request is rejected (no
  response), or a response arrives with a status and a body that parses to an array
  of records or fails to parse.
\<close>

datatype 'a response = Response (status: nat) (json: "'a list option")

definition ok :: "'a response \<Rightarrow> bool" where
  "ok r = (200 \<le> status r \<and> status r \<le> 299)"

type_synonym 'a fetched = "'a response option"

datatype error = TypeError

subsection \<open>Numbers\<close>

text \<open>
  A JavaScript number is an IEEE 754 double. A finite double is written as the real it
  denotes, and \<open>None\<close> stands for a value that is not finite (an infinity or \<open>NaN\<close>).
  The sum or difference of two finite doubles is the exact result rounded to the nearest
  double, to the even one of two equally near, and an infinity when that lies beyond the
  largest double; with an operand that is not finite the result is not finite either.

  \<open>exponent a\<close>, for \<open>a > 0\<close>, is the \<open>e\<close> with \<open>2^e \<le> a < 2^(e+1)\<close>. A double has 53
  significant bits, so doubles near \<open>a\<close> are spaced \<open>2^(e-52)\<close> apart, and \<open>2^(-1074)\<close>
  apart below the smallest normal exponent -1022.
\<close>

type_synonym number = "real option"

definition pow2 :: "int \<Rightarrow> real" where
  "pow2 e = (if 0 \<le> e then 2 ^ nat e else 1 / 2 ^ nat (- e))"

definition exponent :: "real \<Rightarrow> int" where
  "exponent a = (if 1 \<le> a then bitlen \<lfloor>a\<rfloor> - 1 else - bitlen (\<lceil>1 / a\<rceil> - 1))"

definition round_double :: "real \<Rightarrow> number" where
  "round_double x =
     (if x = 0 then Some 0
      else
        (let a = \<bar>x\<bar>;
             e = max (exponent a) (- 1022);
             spacing = pow2 (e - 52);
             q = a / spacing;
             n = \<lfloor>q\<rfloor>;
             r = q - of_int n;
             m = (if r < 1 / 2 then n else if 1 / 2 < r then n + 1
                  else if even n then n else n + 1);
             v = of_int m * spacing
         in if pow2 1024 \<le> v then None else Some (if x < 0 then - v else v)))"

definition js_add :: "number \<Rightarrow> number \<Rightarrow> number" where
  "js_add a b = (case a of None \<Rightarrow> None
                 | Some x \<Rightarrow> (case b of None \<Rightarrow> None | Some y \<Rightarrow> round_double (x + y)))"

definition js_sub :: "number \<Rightarrow> number \<Rightarrow> number" where
  "js_sub a b = (case a of None \<Rightarrow> None
                 | Some x \<Rightarrow> (case b of None \<Rightarrow> None | Some y \<Rightarrow> round_double (x - y)))"

definition js_abs :: "number \<Rightarrow> number" where
  "js_abs a = map_option abs a"

section \<open>Project gallery (projects.js)\<close>

record project =
  title :: field
  description :: field
  image :: field
  github :: field
  huggingface :: field
  hugging_face :: field

datatype button = GithubBtn | HuggingfaceBtn

fun button_label :: "button \<Rightarrow> string" where
  "button_label GithubBtn = ''View on GitHub''"
| "button_label HuggingfaceBtn = ''View on Hugging Face''"

text \<open>
  A card as \<open>createProjectCard\<close> builds it, by what goes into its \<open>innerHTML\<close>: the
  index attribute, the image URL, the title as it is interpolated into the markup (the
  browser parses it: entities and tags in a title are not shown literally) and the
  buttons of \<open>buttonHTML\<close>.
\<close>

record project_card =
  data_project_index :: nat
  background_image :: string
  title_markup :: string
  buttons :: "button list"

datatype pnode = Card project_card | ErrorDiv string | Markup string

text \<open>
  The part of the page the project gallery touches: the section
  \<open>.flex.overflow-y-auto\<close> (if the page has one) with its inner container
  \<open>.flex.items-stretch.p-4.gap-3\<close> (if it has one) and the nodes appended after it,
  and the detail overlay.

  The script finds the overlay's title, image and description with
  \<open>document.getElementById\<close>, which returns the first element of the document with the
  id. The ids \<open>modal-title\<close>, \<open>modal-image\<close> and \<open>modal-description\<close> are also those
  of the certificate overlay, so the page may hold an element with such an id before the
  project overlay (the certificate overlay's, when it was appended to the body first):
  \<open>earlier_title\<close>, \<open>earlier_image\<close> and \<open>earlier_description\<close> hold what that element
  shows, and are \<open>None\<close> when there is none. The ids of the overlay itself and of its link
  blocks are the project gallery's alone.
\<close>

record project_section =
  inner :: "pnode list option"
  appended :: "pnode list"

record project_modal =
  modal_title :: string
  modal_image :: string
  modal_description :: string
  github_hidden :: bool
  github_href :: string
  huggingface_hidden :: bool
  huggingface_href :: string
  modal_hidden :: bool
  modal_flex :: bool

record project_manager =
  projects :: "project list"
  section_el :: "project_section option"
  modal :: "project_modal option"
  earlier_title :: "string option"
  earlier_image :: "string option"
  earlier_description :: "string option"
  body_overflow :: string
  opened :: "string list"

definition placeholder :: string where
  "placeholder = ''https://via.placeholder.com/400x225/212121/ffffff?text=Project+Image''"

definition createProjectCard :: "project \<Rightarrow> nat \<Rightarrow> project_card" where
  "createProjectCard p index =
     (let imageUrl = js_or (image p) placeholder;
          buttonHTML =
            (if truthy (github p) then [GithubBtn]
             else if truthy (huggingface p) \<or> truthy (hugging_face p) then [HuggingfaceBtn]
             else [])
      in \<lparr> data_project_index = index,
           background_image = imageUrl,
           title_markup = template (title p),
           buttons = buttonHTML \<rparr>)"

text \<open>\<open>appendChild\<close> on the inner container.\<close>

definition appendChild :: "pnode \<Rightarrow> project_section \<Rightarrow> project_section" where
  "appendChild n sec = sec\<lparr>inner := map_option (\<lambda>cs. cs @ [n]) (inner sec)\<rparr>"

definition renderProjects :: "project_manager \<Rightarrow> project_manager" where
  "renderProjects pm =
     (case section_el pm of
        None \<Rightarrow> pm
      | Some sec \<Rightarrow>
          (case inner sec of
             None \<Rightarrow> pm
           | Some _ \<Rightarrow>
               (let cleared = sec\<lparr>inner := Some []\<rparr>;
                    filled = foldl (\<lambda>s (index, p). appendChild (Card (createProjectCard p index)) s)
                               cleared (indexed (projects pm))
                in pm\<lparr>section_el := Some filled\<rparr>)))"

text \<open>What a render leaves in the container: one card per record, in order.\<close>

definition cards_of :: "project list \<Rightarrow> pnode list" where
  "cards_of ps = map (\<lambda>(index, p). Card (createProjectCard p index)) (indexed ps)"

definition removeProject :: "int \<Rightarrow> project_manager \<Rightarrow> project_manager" where
  "removeProject index pm =
     (if index \<ge> 0 \<and> index < int (length (projects pm))
      then renderProjects (pm\<lparr>projects := splice index 1 (projects pm)\<rparr>)
      else pm)"

text \<open>\<open>createModal\<close> appends the overlay to the body, hidden, with both link blocks hidden.\<close>

definition empty_modal :: project_modal where
  "empty_modal = \<lparr> modal_title = [], modal_image = [], modal_description = [],
                    github_hidden = True, github_href = [],
                    huggingface_hidden = True, huggingface_href = [],
                    modal_hidden = True, modal_flex = False \<rparr>"

definition createModal :: "project_manager \<Rightarrow> project_manager" where
  "createModal pm = pm\<lparr>modal := Some empty_modal\<rparr>"

text \<open>
  An assignment through \<open>document.getElementById\<close> for one of the three shared ids:
  the earlier element takes the value when the page has one, else the overlay's own
  element does. The result is the pair of both contents after the assignment.
\<close>

definition assign_by_id :: "string option \<Rightarrow> string \<Rightarrow> string \<Rightarrow> string option \<times> string" where
  "assign_by_id earlier own v = (case earlier of Some _ \<Rightarrow> (Some v, own) | None \<Rightarrow> (None, v))"

text \<open>What the element that the id resolves to shows.\<close>

definition resolved :: "string option \<Rightarrow> string \<Rightarrow> string" where
  "resolved earlier own = (case earlier of Some t \<Rightarrow> t | None \<Rightarrow> own)"

text \<open>
  \<open>showProjectModal(project)\<close>. The argument is \<open>None\<close> when the caller read past the
  end of the array (\<open>undefined\<close>): the early return comes first, then reading
  \<open>project.title\<close> throws. \<open>modal_image\<close> holds the URL put inside \<open>url('...')\<close>.
\<close>

definition showProjectModal :: "project option \<Rightarrow> project_manager \<Rightarrow> error + project_manager" where
  "showProjectModal po pm =
     (case modal pm of
        None \<Rightarrow> Inr pm
      | Some m \<Rightarrow>
          (case po of
             None \<Rightarrow> Inl TypeError
           | Some p \<Rightarrow>
               (let modalTitle = assign_by_id (earlier_title pm) (modal_title m)
                                   (as_textContent (title p));
                    modalImage = assign_by_id (earlier_image pm) (modal_image m)
                                   (js_or (image p) placeholder);
                    modalDescription = assign_by_id (earlier_description pm) (modal_description m)
                                         (as_textContent (description p));
                    m1 = m\<lparr> modal_title := snd modalTitle,
                             modal_image := snd modalImage,
                             modal_description := snd modalDescription \<rparr>;
                    m2 = (if truthy (github p)
                          then m1\<lparr> github_hidden := False, github_href := as_textContent (github p) \<rparr>
                          else m1\<lparr> github_hidden := True \<rparr>);
                    hfLink = js_or_field (huggingface p) (hugging_face p);
                    m3 = (if truthy hfLink
                          then m2\<lparr> huggingface_hidden := False, huggingface_href := as_textContent hfLink \<rparr>
                          else m2\<lparr> huggingface_hidden := True \<rparr>)
                in Inr (pm\<lparr> modal := Some (m3\<lparr> modal_hidden := False, modal_flex := True \<rparr>),
                            earlier_title := fst modalTitle,
                            earlier_image := fst modalImage,
                            earlier_description := fst modalDescription,
                            body_overflow := ''hidden'' \<rparr>))))"

definition hideProjectModal :: "project_manager \<Rightarrow> project_manager" where
  "hideProjectModal pm =
     (case modal pm of
        None \<Rightarrow> pm
      | Some m \<Rightarrow> pm\<lparr> modal := Some (m\<lparr> modal_hidden := True, modal_flex := False \<rparr>),
                       body_overflow := [] \<rparr>)"

definition load_error :: string where
  "load_error = ''Failed to load projects. Please check if projects.json exists.''"

definition showErrorMessage :: "string \<Rightarrow> project_manager \<Rightarrow> project_manager" where
  "showErrorMessage message pm =
     (case section_el pm of
        None \<Rightarrow> pm
      | Some sec \<Rightarrow> pm\<lparr>section_el := Some (sec\<lparr>appended := appended sec @ [ErrorDiv message]\<rparr>)\<rparr>)"

text \<open>
  \<open>loadProjects\<close>: a rejected request, a status outside 200..299 and a body that does
  not parse all end in the \<open>catch\<close> branch.
\<close>

definition loadProjects :: "project fetched \<Rightarrow> project_manager \<Rightarrow> project_manager" where
  "loadProjects f pm =
     (case f of
        None \<Rightarrow> showErrorMessage load_error pm
      | Some r \<Rightarrow>
          if \<not> ok r then showErrorMessage load_error pm
          else (case json r of
                  None \<Rightarrow> showErrorMessage load_error pm
                | Some ps \<Rightarrow> renderProjects (pm\<lparr>projects := ps\<rparr>)))"

definition initialize :: "project fetched \<Rightarrow> project_manager \<Rightarrow> project_manager" where
  "initialize f pm = loadProjects f (createModal pm)"

text \<open>
  Where a click lands. A button lies inside its card, so \<open>closest('.project-card')\<close>
  finds the card from the button too.
\<close>

datatype target =
    OnCard nat | OnGithubBtn nat | OnHuggingfaceBtn nat
  | OnModalClose | OnModalBackdrop | OnModalContent | Elsewhere

fun closest_project_card :: "target \<Rightarrow> nat option" where
  "closest_project_card (OnCard i) = Some i"
| "closest_project_card (OnGithubBtn i) = Some i"
| "closest_project_card (OnHuggingfaceBtn i) = Some i"
| "closest_project_card _ = None"

fun closest_github_btn :: "target \<Rightarrow> nat option" where
  "closest_github_btn (OnGithubBtn i) = Some i"
| "closest_github_btn _ = None"

fun closest_huggingface_btn :: "target \<Rightarrow> nat option" where
  "closest_huggingface_btn (OnHuggingfaceBtn i) = Some i"
| "closest_huggingface_btn _ = None"

fun target_id :: "target \<Rightarrow> string" where
  "target_id OnModalClose = ''modal-close''"
| "target_id OnModalBackdrop = ''project-modal''"
| "target_id _ = []"

text \<open>\<open>this.projects[index]\<close>: \<open>undefined\<close> past the end.\<close>

definition at_index :: "'a list \<Rightarrow> nat \<Rightarrow> 'a option" where
  "at_index xs i = (if i < length xs then Some (xs ! i) else None)"

text \<open>
  The document's click listener of \<open>setupEventListeners\<close>, branch by branch in the
  source's order; \<open>window.open\<close> is recorded in \<open>opened\<close>.
\<close>

definition on_click :: "target \<Rightarrow> project_manager \<Rightarrow> error + project_manager" where
  "on_click t pm =
     (case closest_project_card t of
        Some index \<Rightarrow> showProjectModal (at_index (projects pm) index) pm
      | None \<Rightarrow>
          (case closest_github_btn t of
             Some index \<Rightarrow>
               (case at_index (projects pm) index of
                  None \<Rightarrow> Inl TypeError
                | Some p \<Rightarrow>
                    Inr (if truthy (github p)
                         then pm\<lparr>opened := opened pm @ [as_textContent (github p)]\<rparr> else pm))
           | None \<Rightarrow>
               (case closest_huggingface_btn t of
                  Some index \<Rightarrow>
                    (case at_index (projects pm) index of
                       None \<Rightarrow> Inl TypeError
                     | Some p \<Rightarrow>
                         (let hfLink = js_or_field (huggingface p) (hugging_face p)
                          in Inr (if truthy hfLink
                                  then pm\<lparr>opened := opened pm @ [as_textContent hfLink]\<rparr> else pm)))
                | None \<Rightarrow>
                    if target_id t = ''modal-close'' \<or> target_id t = ''project-modal''
                    then Inr (hideProjectModal pm) else Inr pm)))"

text \<open>
  The document's only \<open>keydown\<close> listener. The cards get no \<open>tabindex\<close> and no key
  handler of their own, so this is the only handler a key press reaches.
\<close>

definition on_keydown :: "string \<Rightarrow> project_manager \<Rightarrow> project_manager" where
  "on_keydown key pm =
     (if key = ''Escape'' \<and> (case modal pm of None \<Rightarrow> False | Some m \<Rightarrow> \<not> modal_hidden m)
      then hideProjectModal pm else pm)"

text \<open>
  What can take the keyboard focus in the gallery: the buttons. A card is a \<open>div\<close>
  without \<open>tabindex\<close> and cannot.
\<close>

fun is_button :: "target \<Rightarrow> bool" where
  "is_button (OnGithubBtn i) = True"
| "is_button (OnHuggingfaceBtn i) = True"
| "is_button OnModalClose = True"
| "is_button _ = False"

text \<open>
  A key pressed while \<open>focus\<close> has the focus (\<open>Elsewhere\<close> for the page body). The
  \<open>keydown\<close> event reaches the document's listener; and a focused button is activated
  by Enter or Space, which the browser delivers as a click event on the button.
\<close>

definition press_key :: "string \<Rightarrow> target \<Rightarrow> project_manager \<Rightarrow> error + project_manager" where
  "press_key key focus pm =
     (let pm1 = on_keydown key pm
      in if (key = ''Enter'' \<or> key = '' '') \<and> is_button focus then on_click focus pm1
         else Inr pm1)"

text \<open>
  Observations of the rendered container: the cards, and the text shown, where \<open>shown\<close>
  is the text the browser's parse of a card's markup gives.
\<close>

fun pnode_text :: "(project_card \<Rightarrow> string) \<Rightarrow> pnode \<Rightarrow> string" where
  "pnode_text shown (Card c) = shown c"
| "pnode_text shown (ErrorDiv m) = m"
| "pnode_text shown (Markup m) = m"

fun is_card :: "pnode \<Rightarrow> bool" where
  "is_card (Card c) = True"
| "is_card _ = False"

definition container_nodes :: "project_manager \<Rightarrow> pnode list" where
  "container_nodes pm =
     (case section_el pm of
        None \<Rightarrow> []
      | Some sec \<Rightarrow> (case inner sec of None \<Rightarrow> [] | Some cs \<Rightarrow> cs))"

definition card_count :: "project_manager \<Rightarrow> nat" where
  "card_count pm = length (filter is_card (container_nodes pm))"

definition container_text :: "(project_card \<Rightarrow> string) \<Rightarrow> project_manager \<Rightarrow> string" where
  "container_text shown pm = concat (map (pnode_text shown) (container_nodes pm))"

text \<open>Some other code (or the page itself) replacing what the container holds.\<close>

definition set_container :: "pnode list \<Rightarrow> project_manager \<Rightarrow> project_manager" where
  "set_container ns pm =
     pm\<lparr>section_el := map_option (\<lambda>sec. sec\<lparr>inner := map_option (\<lambda>_. ns) (inner sec)\<rparr>) (section_el pm)\<rparr>"

section \<open>Certificate gallery (smoothscroll.js, CertificateManager)\<close>

text \<open>
  \<open>calculateCardWidth\<close> reads the container's \<open>offsetWidth\<close> (an integer number of
  pixels) and the number of certificates. The division is taken over the reals.
\<close>

definition calculateCardWidth :: "int \<Rightarrow> nat \<Rightarrow> real" where
  "calculateCardWidth containerWidth numCards =
     (let gap = 16; containerPadding = 24 in
      if numCards = 0 then 160
      else if numCards = 1 then min 300 (real_of_int containerWidth - containerPadding)
      else
        (let availableWidth = real_of_int containerWidth - containerPadding
                                - (gap * (real numCards - 1));
             cardWidth = availableWidth / real numCards
         in max 120 cardWidth))"

record certificate =
  name :: field
  issuer :: field
  cert_image :: field
  cert_description :: field

text \<open>
  A card as \<open>renderCertificates\<close> builds it: index, label, width, the image element,
  the title and issuer paragraphs, and whether the compact typography applies.
\<close>

record cert_card =
  dataset_index :: nat
  aria_label :: string
  card_width :: real
  img_src :: string
  img_alt :: string
  cert_title :: string
  cert_issuer :: string
  isSmallCard :: bool

datatype cnode = CertCard cert_card | ErrorP string | CMarkup string

record cert_modal =
  modalTitle :: string
  modalIssuer :: string
  modalDesc :: string
  modalImage :: string
  display :: string
  closeBtn_focused :: bool

text \<open>
  The manager after its constructor found the container: the records, the JSON path,
  the container's children and its current \<open>offsetWidth\<close>, the overlay (absent until
  \<open>createModal\<close> ran) and the body's overflow style.
\<close>

record certificate_manager =
  certificates :: "certificate list"
  jsonPath :: string
  container :: "cnode list"
  offsetWidth :: int
  cmodal :: "cert_modal option"
  cert_body_overflow :: string

definition cert_createModal :: "certificate_manager \<Rightarrow> certificate_manager" where
  "cert_createModal cm =
     cm\<lparr>cmodal := Some \<lparr> modalTitle = [], modalIssuer = [], modalDesc = [], modalImage = [],
                         display = ''none'', closeBtn_focused = False \<rparr>\<rparr>"

definition cert_load_error :: "string \<Rightarrow> string" where
  "cert_load_error path = ''Failed to load certificates. Please check '' @ path @ ''.''"

definition loadCertificates :: "certificate fetched \<Rightarrow> certificate_manager \<Rightarrow> certificate_manager" where
  "loadCertificates f cm =
     (case f of
        None \<Rightarrow> cm\<lparr>container := [ErrorP (cert_load_error (jsonPath cm))]\<rparr>
      | Some r \<Rightarrow>
          if \<not> ok r then cm\<lparr>container := [ErrorP (cert_load_error (jsonPath cm))]\<rparr>
          else (case json r of
                  None \<Rightarrow> cm\<lparr>container := [ErrorP (cert_load_error (jsonPath cm))]\<rparr>
                | Some cs \<Rightarrow> cm\<lparr>certificates := cs\<rparr>))"

definition create_cert_card :: "real \<Rightarrow> certificate \<Rightarrow> nat \<Rightarrow> cert_card" where
  "create_cert_card cardWidth cert idx =
     \<lparr> dataset_index = idx,
       aria_label = ''View certificate: '' @ template (name cert) @ '' issued by '' @ template (issuer cert),
       card_width = cardWidth,
       img_src = js_or (cert_image cert) [],
       img_alt = js_or (name cert) ''Certificate image'',
       cert_title = js_or (name cert) [],
       cert_issuer = js_or (issuer cert) [],
       isSmallCard = (cardWidth \<le> 180) \<rparr>"

definition renderCertificates :: "certificate_manager \<Rightarrow> certificate_manager" where
  "renderCertificates cm =
     (let cleared = cm\<lparr>container := []\<rparr>;
          cardWidth = calculateCardWidth (offsetWidth cleared) (length (certificates cleared))
      in foldl (\<lambda>s (idx, cert). s\<lparr>container := container s @ [CertCard (create_cert_card cardWidth cert idx)]\<rparr>)
           cleared (indexed (certificates cleared)))"

definition init :: "certificate fetched \<Rightarrow> certificate_manager \<Rightarrow> certificate_manager" where
  "init f cm = renderCertificates (loadCertificates f (cert_createModal cm))"

text \<open>The resize listener installed by \<open>init\<close>: the container has a new width, render again.\<close>

definition on_resize :: "int \<Rightarrow> certificate_manager \<Rightarrow> certificate_manager" where
  "on_resize w cm = renderCertificates (cm\<lparr>offsetWidth := w\<rparr>)"

text \<open>
  \<open>showModal(cert)\<close>. Before \<open>createModal\<close> the element references are \<open>null\<close> and the
  first assignment throws. \<open>modalImage\<close> holds the URL put inside \<open>url('...')\<close>.
\<close>

definition showModal :: "certificate \<Rightarrow> certificate_manager \<Rightarrow> error + certificate_manager" where
  "showModal cert cm =
     (case cmodal cm of
        None \<Rightarrow> Inl TypeError
      | Some m \<Rightarrow>
          Inr (cm\<lparr> cmodal := Some (m\<lparr> modalTitle := js_or (name cert) [],
                                        modalIssuer := (if truthy (issuer cert)
                                                        then ''Issued by '' @ template (issuer cert) else []),
                                        modalDesc := js_or (cert_description cert) ''No description available.'',
                                        modalImage := js_or (cert_image cert) [],
                                        display := ''flex'',
                                        closeBtn_focused := True \<rparr>),
                   cert_body_overflow := ''hidden'' \<rparr>))"

text \<open>
  The two listeners each card gets. An event handler's outcome is whether it called
  \<open>preventDefault\<close> and what became of the manager.
\<close>

definition card_click :: "certificate \<Rightarrow> certificate_manager \<Rightarrow> error + certificate_manager" where
  "card_click cert cm = showModal cert cm"

definition card_keydown :: "string \<Rightarrow> certificate \<Rightarrow> certificate_manager
                              \<Rightarrow> bool \<times> (error + certificate_manager)" where
  "card_keydown key cert cm =
     (if key = ''Enter'' \<or> key = '' '' then (True, showModal cert cm) else (False, Inr cm))"

text \<open>Observations of the certificate container.\<close>

fun cnode_text :: "cnode \<Rightarrow> string" where
  "cnode_text (CertCard c) = cert_title c @ cert_issuer c"
| "cnode_text (ErrorP m) = m"
| "cnode_text (CMarkup m) = m"

fun is_cert_card :: "cnode \<Rightarrow> bool" where
  "is_cert_card (CertCard c) = True"
| "is_cert_card _ = False"

fun is_error :: "cnode \<Rightarrow> bool" where
  "is_error (ErrorP m) = True"
| "is_error _ = False"

definition cert_card_count :: "certificate_manager \<Rightarrow> nat" where
  "cert_card_count cm = length (filter is_cert_card (container cm))"

definition cert_container_text :: "certificate_manager \<Rightarrow> string" where
  "cert_container_text cm = concat (map cnode_text (container cm))"

text \<open>The manager as the constructor leaves it, for a page whose container exists.\<close>

definition new_manager :: "string \<Rightarrow> int \<Rightarrow> cnode list \<Rightarrow> certificate_manager" where
  "new_manager path width children =
     \<lparr> certificates = [], jsonPath = path, container = children, offsetWidth = width,
       cmodal = None, cert_body_overflow = [] \<rparr>"

section \<open>Scroll navigator (smoothscroll.js)\<close>

record config =
  headerOffset :: real
  highlightOffset :: real
  debugMode :: bool

definition CONFIG :: config where
  "CONFIG = \<lparr> headerOffset = 80, highlightOffset = 150, debugMode = True \<rparr>"

text \<open>
  The layout of the page at one moment: for each element id, the element's
  \<open>getBoundingClientRect().top\<close> (relative to the viewport) and its \<open>offsetTop\<close>.
  \<open>getElementById\<close> finds nothing for an id the page lacks, nor for the empty id.
\<close>

record element =
  rect_top :: real
  offsetTop :: real

type_synonym document = "string \<rightharpoonup> element"

definition getElementById :: "document \<Rightarrow> string \<Rightarrow> element option" where
  "getElementById doc i = (if i = [] then None else doc i)"

record link_style =
  borderBottom :: string
  paddingBottom :: string
  transition :: string
  opacity :: string

record nav_link =
  href :: field
  style :: link_style

text \<open>
  The script's variables: the links, the section elements they resolved to (kept by
  their ids) and the three counters.
\<close>

record navigator =
  navLinks :: "nav_link list"
  sections :: "string list"
  scrollEventCount :: nat
  highlightUpdateCount :: nat
  clickEventCount :: nat

fun startsWith_hash :: "string \<Rightarrow> bool" where
  "startsWith_hash [] = False"
| "startsWith_hash (c # cs) = (c = CHR ''#'')"

text \<open>
  The three selector strategies, each given by the links it matches: the first
  non-empty result is used.
\<close>

definition find_navLinks :: "nav_link list \<Rightarrow> nav_link list \<Rightarrow> nav_link list \<Rightarrow> nav_link list" where
  "find_navLinks header_nav header_any anywhere =
     (if length header_nav \<noteq> 0 then header_nav
      else if length header_any \<noteq> 0 then header_any
      else anywhere)"

definition link_section :: "document \<Rightarrow> string list \<Rightarrow> nav_link \<Rightarrow> string list" where
  "link_section doc secs link =
     (case href link of
        None \<Rightarrow> secs
      | Some h \<Rightarrow>
          if h \<noteq> [] \<and> startsWith_hash h
          then (let sectionId = tl h in
                case getElementById doc sectionId of
                  Some section \<Rightarrow> secs @ [sectionId]
                | None \<Rightarrow> secs)
          else secs)"

definition nav_setup :: "document \<Rightarrow> nav_link list \<Rightarrow> nav_link list \<Rightarrow> nav_link list \<Rightarrow> navigator" where
  "nav_setup doc header_nav header_any anywhere =
     (let links = find_navLinks header_nav header_any anywhere
      in \<lparr> navLinks = links,
           sections = foldl (link_section doc) [] links,
           scrollEventCount = 0, highlightUpdateCount = 0, clickEventCount = 0 \<rparr>)"

text \<open>
  The top of a section element at the time of a pass; an element that has left the page
  since has an all-zero rectangle.
\<close>

definition rect_top_of :: "document \<Rightarrow> string \<Rightarrow> real" where
  "rect_top_of doc i = (case doc i of Some e \<Rightarrow> rect_top e | None \<Rightarrow> 0)"

text \<open>
  The test \<open>distance < bestScore\<close>. The distance comes out of \<open>Math.abs\<close>: when it is
  not finite it is \<open>Infinity\<close> or \<open>NaN\<close>, below nothing. \<open>bestScore\<close> is \<open>Infinity\<close> at
  the start and a finite distance ever after, so in its place \<open>None\<close> is \<open>Infinity\<close>,
  and every finite distance is below it.
\<close>

fun below :: "number \<Rightarrow> number \<Rightarrow> bool" where
  "below None b = False"
| "below (Some d) None = True"
| "below (Some d) (Some b) = (d < b)"

definition score_step :: "document \<Rightarrow> real \<Rightarrow> number \<Rightarrow> nat \<times> number \<Rightarrow> nat \<times> string
                            \<Rightarrow> nat \<times> number" where
  "score_step doc scrollPosition triggerPoint best entry =
     (let absoluteTop = js_add (Some (rect_top_of doc (snd entry))) (Some scrollPosition);
          distance = js_abs (js_sub triggerPoint absoluteTop)
      in if below distance (snd best) then (fst entry, distance) else best)"

definition find_active :: "document \<Rightarrow> real \<Rightarrow> string list \<Rightarrow> nat \<times> number" where
  "find_active doc scrollY secs =
     foldl (score_step doc scrollY (js_add (Some scrollY) (Some (highlightOffset CONFIG))))
       (0, None) (indexed secs)"

definition active_style :: link_style where
  "active_style = \<lparr> borderBottom = ''2px solid #ffffff'', paddingBottom = ''4px'',
                     transition = ''all 0.3s ease'', opacity = ''1'' \<rparr>"

definition inactive_style :: link_style where
  "inactive_style = \<lparr> borderBottom = ''none'', paddingBottom = ''0'',
                       transition = ''all 0.3s ease'', opacity = ''0.7'' \<rparr>"

definition updateHighlighting :: "document \<Rightarrow> real \<Rightarrow> navigator \<Rightarrow> navigator" where
  "updateHighlighting doc scrollY nv =
     (if length (sections nv) = 0 then nv
      else
        (let activeIndex = fst (find_active doc scrollY (sections nv))
         in nv\<lparr> highlightUpdateCount := highlightUpdateCount nv + 1,
                navLinks := map (\<lambda>(index, link).
                                   if index = activeIndex then link\<lparr>style := active_style\<rparr>
                                   else link\<lparr>style := inactive_style\<rparr>)
                              (indexed (navLinks nv)) \<rparr>))"

text \<open>
  Which primitives the browser refuses (by throwing): \<open>scrollIntoView\<close> with options,
  \<open>getBoundingClientRect\<close>, \<open>window.scrollTo\<close> with options.
\<close>

record browser =
  scrollIntoView_throws :: bool
  getBoundingClientRect_throws :: bool
  scrollTo_options_throws :: bool

datatype scroll_request =
    ScrollIntoView string
  | ScrollToSmooth real
  | ScrollToInstant real

text \<open>
  What a click handler did: whether it called \<open>preventDefault\<close>, the scroll it asked
  for, and after how many milliseconds it scheduled the highlighting pass.
\<close>

record click_outcome =
  defaultPrevented :: bool
  scroll :: "scroll_request option"
  highlight_after :: "nat option"

definition no_action :: click_outcome where
  "no_action = \<lparr> defaultPrevented = False, scroll = None, highlight_after = None \<rparr>"

definition nav_click :: "browser \<Rightarrow> document \<Rightarrow> real \<Rightarrow> nav_link \<Rightarrow> navigator
                           \<Rightarrow> click_outcome \<times> navigator" where
  "nav_click br doc scrollY link nv =
     (let nv' = nv\<lparr>clickEventCount := clickEventCount nv + 1\<rparr> in
      case href link of
        None \<Rightarrow> (no_action, nv')
      | Some targetHref \<Rightarrow>
          if targetHref \<noteq> [] \<and> startsWith_hash targetHref
          then (let sectionId = tl targetHref in
                case getElementById doc sectionId of
                  None \<Rightarrow> (no_action, nv')
                | Some targetSection \<Rightarrow>
                    if \<not> scrollIntoView_throws br
                    then (\<lparr> defaultPrevented = True,
                             scroll = Some (ScrollIntoView sectionId),
                             highlight_after = Some 100 \<rparr>, nv')
                    else
                      (let scrollTop = scrollY;
                           targetPosition =
                             (if \<not> getBoundingClientRect_throws br
                              then rect_top targetSection + scrollTop - headerOffset CONFIG
                              else offsetTop targetSection - headerOffset CONFIG)
                       in (\<lparr> defaultPrevented = True,
                               scroll = Some (if \<not> scrollTo_options_throws br
                                              then ScrollToSmooth targetPosition
                                              else ScrollToInstant targetPosition),
                               highlight_after = Some 300 \<rparr>, nv')))
          else (no_action, nv'))"

text \<open>
  The scroll position a request ends at when the page is long enough to reach it:
  \<open>scrollIntoView\<close> with \<open>block: 'start'\<close> brings the element's top edge to the top of
  the viewport (the page sets no scroll margin through this script), \<open>scrollTo\<close> goes
  to the position it is given.
\<close>

fun destination :: "document \<Rightarrow> real \<Rightarrow> scroll_request \<Rightarrow> real" where
  "destination doc scrollY (ScrollIntoView i) = rect_top_of doc i + scrollY"
| "destination doc scrollY (ScrollToSmooth p) = p"
| "destination doc scrollY (ScrollToInstant p) = p"

text \<open>
  The words of the highlighting claim. \<open>distance\<close> is the distance of a section as the
  script computes it, in doubles; \<open>triggerPoint\<close>, \<open>sectionTop\<close> and \<open>exact_distance\<close>
  are the same quantities over the reals, without rounding.
\<close>

definition triggerPoint :: "real \<Rightarrow> real" where
  "triggerPoint scrollY = scrollY + highlightOffset CONFIG"

definition sectionTop :: "document \<Rightarrow> real \<Rightarrow> string \<Rightarrow> real" where
  "sectionTop doc scrollY sec = rect_top_of doc sec + scrollY"

definition exact_distance :: "document \<Rightarrow> real \<Rightarrow> string \<Rightarrow> real" where
  "exact_distance doc scrollY sec = \<bar>triggerPoint scrollY - sectionTop doc scrollY sec\<bar>"

definition distance :: "document \<Rightarrow> real \<Rightarrow> string \<Rightarrow> number" where
  "distance doc scrollY sec =
     js_abs (js_sub (js_add (Some scrollY) (Some (highlightOffset CONFIG)))
                    (js_add (Some (rect_top_of doc sec)) (Some scrollY)))"

definition is_active :: "nav_link \<Rightarrow> bool" where
  "is_active link = (style link = active_style)"

definition is_inactive :: "nav_link \<Rightarrow> bool" where
  "is_inactive link = (style link = inactive_style)"

section \<open>Mobile drawer controller (smoothscroll.js, MobileHeaderHandler)\<close>

text \<open>The options that decide the mode and the header lookup; the rest is styling.\<close>

record options =
  mobileBreakpoint :: int
  smallMobileBreakpoint :: int
  headerSelectors :: "string list"

definition default_options :: options where
  "default_options =
     \<lparr> mobileBreakpoint = 900, smallMobileBreakpoint = 540,
       headerSelectors = [''header'', ''.header'', ''#header'', ''nav'', ''.nav'', ''.navigation'',
                          ''.navbar'', ''.top-nav'', ''.header-nav'', ''.main-nav''] \<rparr>"

text \<open>
  \<open>document.querySelector\<close> on the hosting page: the first element a selector matches,
  if any; elements are named by numbers.
\<close>

type_synonym page = "string \<rightharpoonup> nat"

text \<open>
  The handler's fields, and what it changes on the page: the inline \<open>display\<close> style of
  each element, how many hamburger buttons, drawers and backdrops the body holds, and how
  many resize listeners the window has from this handler. A reference field is \<open>True\<close>
  when it holds an element and \<open>False\<close> when it is \<open>null\<close>.
\<close>

record mobile_header_handler =
  options :: options
  header :: "nat option"
  hamburgerButton :: bool
  drawer :: bool
  backdrop :: bool
  isOpen :: bool
  isMobile :: bool
  isSmallMobile :: bool
  style_display :: "nat \<Rightarrow> string"
  buttons_in_body :: nat
  drawers_in_body :: nat
  backdrops_in_body :: nat
  resize_listeners :: nat

definition new_handler :: "options \<Rightarrow> mobile_header_handler" where
  "new_handler opts =
     \<lparr> options = opts, header = None, hamburgerButton = False, drawer = False, backdrop = False,
       isOpen = False, isMobile = False, isSmallMobile = False,
       style_display = (\<lambda>_. []), buttons_in_body = 0, drawers_in_body = 0,
       backdrops_in_body = 0, resize_listeners = 0 \<rparr>"

definition checkMobile :: "int \<Rightarrow> mobile_header_handler \<Rightarrow> mobile_header_handler" where
  "checkMobile width h =
     h\<lparr> isMobile := width \<le> mobileBreakpoint (options h),
        isSmallMobile := width \<le> smallMobileBreakpoint (options h) \<rparr>"

fun first_match :: "page \<Rightarrow> string list \<Rightarrow> nat option" where
  "first_match pg [] = None"
| "first_match pg (selector # rest) =
     (case pg selector of Some element \<Rightarrow> Some element | None \<Rightarrow> first_match pg rest)"

text \<open>\<open>findHeader\<close> keeps the old reference when no selector matches.\<close>

definition findHeader :: "page \<Rightarrow> mobile_header_handler \<Rightarrow> mobile_header_handler" where
  "findHeader pg h =
     (case first_match pg (headerSelectors (options h)) of
        Some element \<Rightarrow> h\<lparr>header := Some element\<rparr>
      | None \<Rightarrow> h)"

definition removeHamburgerButton :: "mobile_header_handler \<Rightarrow> mobile_header_handler" where
  "removeHamburgerButton h =
     (if hamburgerButton h
      then h\<lparr> buttons_in_body := buttons_in_body h - 1, hamburgerButton := False \<rparr>
      else h)"

definition createHamburgerButton :: "mobile_header_handler \<Rightarrow> mobile_header_handler" where
  "createHamburgerButton h =
     (let h1 = removeHamburgerButton h
      in h1\<lparr> hamburgerButton := True, buttons_in_body := buttons_in_body h1 + 1 \<rparr>)"

definition removeDrawer :: "mobile_header_handler \<Rightarrow> mobile_header_handler" where
  "removeDrawer h =
     (let h1 = (if drawer h
                then h\<lparr> drawers_in_body := drawers_in_body h - 1, drawer := False \<rparr> else h)
      in if backdrop h1
         then h1\<lparr> backdrops_in_body := backdrops_in_body h1 - 1, backdrop := False \<rparr> else h1)"

text \<open>\<open>createDrawer\<close>; what \<open>populateDrawer\<close> puts inside the drawer is left out.\<close>

definition createDrawer :: "mobile_header_handler \<Rightarrow> mobile_header_handler" where
  "createDrawer h =
     (let h1 = removeDrawer h
      in h1\<lparr> backdrop := True, drawer := True,
              backdrops_in_body := backdrops_in_body h1 + 1,
              drawers_in_body := drawers_in_body h1 + 1 \<rparr>)"

definition hideOriginalHeader :: "mobile_header_handler \<Rightarrow> mobile_header_handler" where
  "hideOriginalHeader h =
     (case header h of
        Some element \<Rightarrow> h\<lparr>style_display := (style_display h)(element := ''none'')\<rparr>
      | None \<Rightarrow> h)"

definition showOriginalHeader :: "mobile_header_handler \<Rightarrow> mobile_header_handler" where
  "showOriginalHeader h =
     (case header h of
        Some element \<Rightarrow> h\<lparr>style_display := (style_display h)(element := [])\<rparr>
      | None \<Rightarrow> h)"

definition setupResizeListener :: "mobile_header_handler \<Rightarrow> mobile_header_handler" where
  "setupResizeListener h = h\<lparr>resize_listeners := resize_listeners h + 1\<rparr>"

text \<open>
  The method \<open>setup\<close>, at the current \<open>window.innerWidth\<close>; \<open>setupEventListeners\<close> only attaches
  handlers for the drawer and is left out.
\<close>

definition handler_setup :: "page \<Rightarrow> int \<Rightarrow> mobile_header_handler \<Rightarrow> mobile_header_handler" where
  "handler_setup pg width h =
     (let h1 = checkMobile width h;
          h2 = (if isMobile h1
                then (let h3 = findHeader pg h1
                      in if header h3 \<noteq> None
                         then hideOriginalHeader (createDrawer (createHamburgerButton h3))
                         else h3)
                else removeDrawer (removeHamburgerButton (showOriginalHeader h1)))
      in setupResizeListener h2)"

text \<open>
  The debounced body of one resize listener, run when its timer fires at the width the
  window then has; and a resize as a whole: every listener attached so far runs its
  body once, in turn.
\<close>

definition resize_callback :: "page \<Rightarrow> int \<Rightarrow> mobile_header_handler \<Rightarrow> mobile_header_handler" where
  "resize_callback pg width h =
     (let wasMobile = isMobile h;
          h1 = checkMobile width h
      in if wasMobile \<noteq> isMobile h1 then handler_setup pg width h1 else h1)"

definition resize :: "page \<Rightarrow> int \<Rightarrow> mobile_header_handler \<Rightarrow> mobile_header_handler" where
  "resize pg width h = ((resize_callback pg width) ^^ (resize_listeners h)) h"

text \<open>The words of the claim on the two configurations.\<close>

definition original_header_visible :: "mobile_header_handler \<Rightarrow> bool" where
  "original_header_visible h =
     (case header h of None \<Rightarrow> True | Some element \<Rightarrow> style_display h element \<noteq> ''none'')"

definition apparatus_present :: "mobile_header_handler \<Rightarrow> bool" where
  "apparatus_present h =
     (hamburgerButton h \<and> drawer h \<and> backdrop h
      \<and> buttons_in_body h = 1 \<and> drawers_in_body h = 1 \<and> backdrops_in_body h = 1)"

definition apparatus_absent :: "mobile_header_handler \<Rightarrow> bool" where
  "apparatus_absent h =
     (\<not> hamburgerButton h \<and> \<not> drawer h \<and> \<not> backdrop h
      \<and> buttons_in_body h = 0 \<and> drawers_in_body h = 0 \<and> backdrops_in_body h = 0)"

definition nothing_hidden :: "mobile_header_handler \<Rightarrow> bool" where
  "nothing_hidden h = (style_display h = (\<lambda>_. []))"

text \<open>The states the handler moves through on a page, by mode and by header lookup.\<close>

definition shape :: "page \<Rightarrow> mobile_header_handler \<Rightarrow> bool" where
  "shape pg h =
     (case first_match pg (headerSelectors (options h)) of
        None \<Rightarrow> header h = None \<and> apparatus_absent h \<and> nothing_hidden h
      | Some e \<Rightarrow>
          if isMobile h
          then header h = Some e \<and> apparatus_present h
               \<and> style_display h = (\<lambda>_. [])(e := ''none'')
          else (header h = None \<or> header h = Some e) \<and> apparatus_absent h \<and> nothing_hidden h)"

text \<open>The handler after its first setup at width \<open>w0\<close> and resizes to the widths \<open>ws\<close>.\<close>

definition after_resizes :: "page \<Rightarrow> options \<Rightarrow> int \<Rightarrow> int list \<Rightarrow> mobile_header_handler" where
  "after_resizes pg opts w0 ws = foldl (\<lambda>h w. resize pg w h) (handler_setup pg w0 (new_handler opts)) ws"

section \<open>Sample records and pages\<close>

definition sample_project :: project where
  "sample_project = \<lparr> title = Some ''Segmenter'', description = None, image = None,
                       github = None, huggingface = Some ''https://huggingface.co/u/seg'',
                       hugging_face = None \<rparr>"

definition sample_page :: project_manager where
  "sample_page = \<lparr> projects = [sample_project],
                    section_el = Some \<lparr> inner = Some [Card (createProjectCard sample_project 0)],
                                        appended = [] \<rparr>,
                    modal = Some empty_modal,
                    earlier_title = None, earlier_image = None, earlier_description = None,
                    body_overflow = [], opened = [] \<rparr>"

text \<open>The same page when it also hosts the certificate gallery, whose overlay came first.\<close>

definition sample_shared_page :: project_manager where
  "sample_shared_page = sample_page\<lparr> earlier_title := Some [], earlier_image := Some [],
                                      earlier_description := Some [] \<rparr>"

definition sample_pair :: project_manager where
  "sample_pair = \<lparr> projects = [sample_project, sample_project\<lparr>title := Some ''Tracker''\<rparr>],
                    section_el = Some \<lparr> inner = Some [], appended = [] \<rparr>,
                    modal = None,
                    earlier_title = None, earlier_image = None, earlier_description = None,
                    body_overflow = [], opened = [] \<rparr>"

definition sample_certificate :: certificate where
  "sample_certificate = \<lparr> name = Some ''Deep Learning'', issuer = Some ''Coursera'',
                           cert_image = None, cert_description = None \<rparr>"

definition sample_manager :: certificate_manager where
  "sample_manager = cert_createModal (new_manager ''/static/data/cert.json'' 800 [])"

text \<open>A page with two sections, its two links, and a browser with every primitive.\<close>

definition sample_document :: document where
  "sample_document = [''about'' \<mapsto> \<lparr> rect_top = 1000, offsetTop = 1000 \<rparr>,
                      ''projects'' \<mapsto> \<lparr> rect_top = 1300, offsetTop = 1300 \<rparr>]"

definition plain_link :: "string \<Rightarrow> nav_link" where
  "plain_link h = \<lparr> href = Some h, style = \<lparr> borderBottom = [], paddingBottom = [],
                                             transition = [], opacity = [] \<rparr> \<rparr>"

definition sample_navigator :: navigator where
  "sample_navigator = nav_setup sample_document [plain_link ''#about'', plain_link ''#projects''] [] []"

definition modern_browser :: browser where
  "modern_browser = \<lparr> scrollIntoView_throws = False, getBoundingClientRect_throws = False,
                       scrollTo_options_throws = False \<rparr>"

text \<open>
  The same page after scrolling, a layout with two sections equally far from the trigger
  point, and the scroll position 0.8 as a double.
\<close>

definition fractional_scroll :: real where
  "fractional_scroll = 3602879701896397 / 4503599627370496"

definition scrolled_document :: document where
  "scrolled_document = [''about'' \<mapsto> \<lparr> rect_top = -150, offsetTop = 1000 \<rparr>,
                        ''projects'' \<mapsto> \<lparr> rect_top = 150, offsetTop = 1300 \<rparr>]"

definition tied_document :: document where
  "tied_document = [''about'' \<mapsto> \<lparr> rect_top = 100, offsetTop = 1000 \<rparr>,
                    ''projects'' \<mapsto> \<lparr> rect_top = 200, offsetTop = 1300 \<rparr>]"

text \<open>A hosting page with a header element and a navigation element.\<close>

definition sample_host :: page where
  "sample_host = [''header'' \<mapsto> 0, ''nav'' \<mapsto> 1]"

section \<open>Helper lemmas\<close>

lemma splice_one_in_range:
  assumes "0 \<le> i" "i < int (length xs)"
  shows "splice i 1 xs = take (nat i) xs @ drop (Suc (nat i)) xs"
proof -
  have "nat (i + 1) = Suc (nat i)" using assms by simp
  then show ?thesis using assms by (simp add: splice_def Let_def)
qed

lemma fold_appendChild_cards:
  "foldl (\<lambda>s (index, p). appendChild (Card (f p index)) s) (sec\<lparr>inner := Some acc\<rparr>) ips
     = sec\<lparr>inner := Some (acc @ map (\<lambda>(index, p). Card (f p index)) ips)\<rparr>"
  by (induction ips arbitrary: acc) (auto simp: appendChild_def)

lemma renderProjects_container:
  "section_el pm = Some sec \<Longrightarrow> inner sec = Some cs \<Longrightarrow>
     renderProjects pm = pm\<lparr>section_el := Some (sec\<lparr>inner := Some (cards_of (projects pm))\<rparr>)\<rparr>"
  by (simp add: renderProjects_def Let_def fold_appendChild_cards cards_of_def)

lemma fold_append_cert_cards:
  "foldl (\<lambda>s (idx, cert). s\<lparr>container := container s @ [CertCard (f cert idx)]\<rparr>) s0 ics
     = s0\<lparr>container := container s0 @ map (\<lambda>(idx, cert). CertCard (f cert idx)) ics\<rparr>"
  by (induction ics arbitrary: s0) auto

lemma renderCertificates_container:
  "renderCertificates cm =
     cm\<lparr>container :=
          map (\<lambda>(idx, cert). CertCard (create_cert_card
                 (calculateCardWidth (offsetWidth cm) (length (certificates cm))) cert idx))
            (indexed (certificates cm))\<rparr>"
  by (simp add: renderCertificates_def Let_def fold_append_cert_cards)

lemma renderCertificates_overwrites:
  "renderCertificates (cm\<lparr>container := junk\<rparr>) = renderCertificates cm"
  by (simp add: renderCertificates_container)

lemma renderProjects_overwrites:
  "renderProjects (set_container junk (renderProjects pm)) = renderProjects pm"
proof (cases "section_el pm")
  case None
  then show ?thesis by (simp add: renderProjects_def set_container_def)
next
  case (Some sec)
  show ?thesis
  proof (cases "inner sec")
    case None
    with Some show ?thesis by (simp add: renderProjects_def set_container_def)
  next
    case (Some cs)
    with \<open>section_el pm = Some sec\<close> show ?thesis
      by (simp add: renderProjects_container[of _ "sec\<lparr>inner := Some junk\<rparr>" junk]
                    renderProjects_container[of pm sec cs] set_container_def)
  qed
qed

lemma filter_cards_of: "filter is_card (cards_of ps) = cards_of ps"
  by (simp add: cards_of_def filter_map comp_def split_def)

lemma length_cards_of: "length (cards_of ps) = length ps"
  by (simp add: cards_of_def indexed_def)

lemma loadCertificates_failure:
  assumes "f = None \<or> (\<exists>r. f = Some r \<and> (\<not> ok r \<or> json r = None))"
  shows "loadCertificates f cm = cm\<lparr>container := [ErrorP (cert_load_error (jsonPath cm))]\<rparr>"
  using assms by (auto simp: loadCertificates_def split: option.splits)

lemma init_failure_clears_message:
  assumes "f = None \<or> (\<exists>r. f = Some r \<and> (\<not> ok r \<or> json r = None))"
  shows "init f (new_manager path w children)
           = (cert_createModal (new_manager path w children))\<lparr>container := []\<rparr>"
  using loadCertificates_failure[OF assms]
  by (simp add: init_def renderCertificates_container new_manager_def cert_createModal_def indexed_def)

lemma loadProjects_failure:
  assumes "f = None \<or> (\<exists>r. f = Some r \<and> (\<not> ok r \<or> json r = None))"
  shows "loadProjects f pm = showErrorMessage load_error pm"
  using assms by (auto simp: loadProjects_def split: option.splits)

lemma initialize_failure_keeps_message:
  assumes "f = None \<or> (\<exists>r. f = Some r \<and> (\<not> ok r \<or> json r = None))"
      and "projects pm = []" and "section_el pm = Some sec"
  shows "projects (initialize f pm) = []
         \<and> section_el (initialize f pm) = Some (sec\<lparr>appended := appended sec @ [ErrorDiv load_error]\<rparr>)"
  using loadProjects_failure[OF assms(1)] assms(2,3)
  by (simp add: initialize_def showErrorMessage_def createModal_def)

lemma map_snd_indexed: "map snd (indexed xs) = xs"
  by (simp add: indexed_def)

lemma renderCertificates_count:
  "cert_card_count (renderCertificates cm) = length (certificates cm)"
  by (simp add: renderCertificates_container cert_card_count_def filter_map comp_def split_def
                indexed_def)

lemma renderCertificates_text:
  "cert_container_text (renderCertificates cm)
     = concat (map (\<lambda>cert. js_or (name cert) [] @ js_or (issuer cert) []) (certificates cm))"
proof -
  have "map cnode_text (container (renderCertificates cm))
          = map ((\<lambda>cert. js_or (name cert) [] @ js_or (issuer cert) []) \<circ> snd)
              (indexed (certificates cm))"
    by (simp add: renderCertificates_container create_cert_card_def comp_def split_def)
  also have "\<dots> = map (\<lambda>cert. js_or (name cert) [] @ js_or (issuer cert) [])
                       (map snd (indexed (certificates cm)))"
    by simp
  finally show ?thesis
    by (simp add: cert_container_text_def map_snd_indexed)
qed

lemma renderProjects_card_count:
  "section_el pm = Some sec \<Longrightarrow> inner sec = Some cs \<Longrightarrow>
     card_count (renderProjects pm) = length (projects pm)"
  by (simp add: renderProjects_container card_count_def container_nodes_def
                filter_cards_of length_cards_of)

lemma indexed_snoc: "indexed (xs @ [x]) = indexed xs @ [(length xs, x)]"
  by (simp add: indexed_def)

lemma nth_indexed: "i < length xs \<Longrightarrow> indexed xs ! i = (i, xs ! i)"
  by (simp add: indexed_def)

lemma length_indexed: "length (indexed xs) = length xs"
  by (simp add: indexed_def)

lemma below_irrefl: "\<not> below a a"
  by (cases a) simp_all

lemma below_trans: "below a b \<Longrightarrow> below b c \<Longrightarrow> below a c"
  by (cases a; cases b; cases c) simp_all

lemma below_of_not_below: "below x b \<Longrightarrow> \<not> below j b \<Longrightarrow> below x j"
  by (cases x; cases b; cases j) simp_all

lemma below_None_iff: "below d None = (d \<noteq> None)"
  by (cases d) simp_all

lemma score_step_distance:
  "score_step doc y (js_add (Some y) (Some (highlightOffset CONFIG))) best (i, x)
     = (if below (distance doc y x) (snd best) then (i, distance doc y x) else best)"
  by (simp add: score_step_def distance_def Let_def)

lemma find_active_snoc:
  "find_active doc y (xs @ [x])
     = score_step doc y (js_add (Some y) (Some (highlightOffset CONFIG)))
         (find_active doc y xs) (length xs, x)"
  by (simp add: find_active_def indexed_snoc)

lemma find_active_Nil: "find_active doc y [] = (0, None)"
  by (simp add: find_active_def indexed_def)

lemma find_active_first_minimum:
  "secs \<noteq> [] \<Longrightarrow>
     \<exists>k. find_active doc y secs = (k, distance doc y (secs ! k)) \<and> k < length secs
        \<and> (\<forall>j < length secs. \<not> below (distance doc y (secs ! j)) (distance doc y (secs ! k)))
        \<and> (\<forall>j < k. below (distance doc y (secs ! k)) (distance doc y (secs ! j)))"
proof (induction secs rule: rev_induct)
  case Nil
  then show ?case by simp
next
  case (snoc x xs)
  show ?case
  proof (cases "xs = []")
    case True
    have "find_active doc y [x] = (0, distance doc y x)"
      using find_active_snoc[of doc y "[]" x]
      by (cases "distance doc y x") (simp_all add: find_active_Nil score_step_distance)
    with True show ?thesis by (simp add: below_irrefl)
  next
    case False
    with snoc.IH obtain k where
      fa: "find_active doc y xs = (k, distance doc y (xs ! k))" and k: "k < length xs"
      and le: "\<forall>j < length xs. \<not> below (distance doc y (xs ! j)) (distance doc y (xs ! k))"
      and lt: "\<forall>j < k. below (distance doc y (xs ! k)) (distance doc y (xs ! j))"
      by blast
    show ?thesis
    proof (cases "below (distance doc y x) (distance doc y (xs ! k))")
      case True
      have r: "find_active doc y (xs @ [x]) = (length xs, distance doc y x)"
        using True fa by (simp add: find_active_snoc score_step_distance)
      have a: "\<not> below (distance doc y ((xs @ [x]) ! j)) (distance doc y x)"
        if "j < length (xs @ [x])" for j
      proof (cases "j < length xs")
        case True
        then have "\<not> below (distance doc y (xs ! j)) (distance doc y (xs ! k))"
          using le by simp
        then have "\<not> below (distance doc y (xs ! j)) (distance doc y x)"
          using \<open>below (distance doc y x) (distance doc y (xs ! k))\<close> below_trans by blast
        with True show ?thesis by (simp add: nth_append)
      next
        case False
        with that have "j = length xs" by simp
        then show ?thesis by (simp add: below_irrefl)
      qed
      have b: "below (distance doc y x) (distance doc y ((xs @ [x]) ! j))"
        if "j < length xs" for j
      proof -
        have "\<not> below (distance doc y (xs ! j)) (distance doc y (xs ! k))"
          using le that by simp
        then have "below (distance doc y x) (distance doc y (xs ! j))"
          using True below_of_not_below by blast
        then show ?thesis using that by (simp add: nth_append)
      qed
      show ?thesis using r a b by simp
    next
      case False
      have r: "find_active doc y (xs @ [x]) = (k, distance doc y (xs ! k))"
        using False fa by (simp add: find_active_snoc score_step_distance)
      have a: "\<not> below (distance doc y ((xs @ [x]) ! j)) (distance doc y (xs ! k))"
        if "j < length (xs @ [x])" for j
        using that False le by (cases "j < length xs") (simp_all add: nth_append)
      have b: "\<forall>j < k. below (distance doc y (xs ! k)) (distance doc y ((xs @ [x]) ! j))"
        using lt k by (auto simp: nth_append)
      show ?thesis using r a b k by (simp add: nth_append)
    qed
  qed
qed

lemma active_not_inactive: "active_style \<noteq> inactive_style"
  by (simp add: active_style_def inactive_style_def)

lemma highlighted_nth:
  assumes "sections nv \<noteq> []" "i < length (navLinks nv)"
  shows "navLinks (updateHighlighting doc y nv) ! i
           = (if i = fst (find_active doc y (sections nv))
              then (navLinks nv ! i)\<lparr>style := active_style\<rparr>
              else (navLinks nv ! i)\<lparr>style := inactive_style\<rparr>)"
  using assms by (simp add: updateHighlighting_def Let_def length_indexed nth_indexed)

lemma link_section_length: "length (link_section doc secs link) \<le> Suc (length secs)"
  by (simp add: link_section_def Let_def split: option.splits)

lemma fold_link_section_length:
  "length (foldl (link_section doc) secs links) \<le> length secs + length links"
proof (induction links arbitrary: secs)
  case Nil
  then show ?case by simp
next
  case (Cons l ls)
  have "length (foldl (link_section doc) (link_section doc secs l) ls)
          \<le> length (link_section doc secs l) + length ls"
    by (rule Cons.IH)
  also have "\<dots> \<le> Suc (length secs) + length ls"
    using link_section_length[of doc secs l] by simp
  finally show ?case by simp
qed

lemma nav_setup_sections_le_links:
  "length (sections (nav_setup doc a b c)) \<le> length (navLinks (nav_setup doc a b c))"
  using fold_link_section_length[of doc "[]"] by (simp add: nav_setup_def Let_def)

lemma updateHighlighting_keeps:
  "sections (updateHighlighting doc y nv) = sections nv
   \<and> length (navLinks (updateHighlighting doc y nv)) = length (navLinks nv)"
  by (simp add: updateHighlighting_def Let_def length_indexed)

lemma sample_navigator_eval:
  "sample_navigator = \<lparr> navLinks = [plain_link ''#about'', plain_link ''#projects''],
                         sections = [''about'', ''projects''],
                         scrollEventCount = 0, highlightUpdateCount = 0, clickEventCount = 0 \<rparr>"
  by (simp add: sample_navigator_def nav_setup_def find_navLinks_def link_section_def
                getElementById_def sample_document_def plain_link_def Let_def)

lemma bitlen_numeral_step: "bitlen (numeral k) = bitlen (numeral k div 2) + 1"
  by (subst compute_bitlen) simp

lemma bitlen_one: "bitlen 1 = 1"
  by (subst compute_bitlen) simp

lemmas evaluate_distance =
  distance_def js_add_def js_sub_def js_abs_def round_double_def exponent_def pow2_def
  rect_top_of_def CONFIG_def Let_def bitlen_numeral_step bitlen_one

lemma find_active_pair:
  "find_active doc y [a, b]
     = (if below (distance doc y b)
             (if below (distance doc y a) None then distance doc y a else None)
        then (1, distance doc y b)
        else if below (distance doc y a) None then (0, distance doc y a) else (0, None))"
  by (simp add: find_active_def indexed_def score_step_distance)

lemma nav_click_prevents_iff_resolved:
  "defaultPrevented (fst (nav_click br doc y link nv))
     = (\<exists>h. href link = Some h \<and> startsWith_hash h \<and> getElementById doc (tl h) \<noteq> None)"
  by (cases "href link")
     (auto simp: nav_click_def no_action_def Let_def split: option.splits)

lemma setup_options [simp]: "options (handler_setup pg w h) = options h"
  by (simp add: handler_setup_def Let_def checkMobile_def findHeader_def hideOriginalHeader_def
        createDrawer_def removeDrawer_def createHamburgerButton_def removeHamburgerButton_def
        showOriginalHeader_def setupResizeListener_def split: option.splits)

lemma setup_isMobile [simp]:
  "isMobile (handler_setup pg w h) = (w \<le> mobileBreakpoint (options h))"
  by (simp add: handler_setup_def Let_def checkMobile_def findHeader_def hideOriginalHeader_def
        createDrawer_def removeDrawer_def createHamburgerButton_def removeHamburgerButton_def
        showOriginalHeader_def setupResizeListener_def split: option.splits)

lemma setup_isSmallMobile [simp]:
  "isSmallMobile (handler_setup pg w h) = (w \<le> smallMobileBreakpoint (options h))"
  by (simp add: handler_setup_def Let_def checkMobile_def findHeader_def hideOriginalHeader_def
        createDrawer_def removeDrawer_def createHamburgerButton_def removeHamburgerButton_def
        showOriginalHeader_def setupResizeListener_def split: option.splits)

lemma setup_listeners [simp]:
  "resize_listeners (handler_setup pg w h) = Suc (resize_listeners h)"
  by (simp add: handler_setup_def Let_def checkMobile_def findHeader_def hideOriginalHeader_def
        createDrawer_def removeDrawer_def createHamburgerButton_def removeHamburgerButton_def
        showOriginalHeader_def setupResizeListener_def split: option.splits)

lemma setup_shape: "shape pg h \<Longrightarrow> shape pg (handler_setup pg w h)"
  unfolding shape_def
  by (cases "first_match pg (headerSelectors (options h))")
     (auto simp: handler_setup_def Let_def checkMobile_def findHeader_def hideOriginalHeader_def
        createDrawer_def removeDrawer_def createHamburgerButton_def removeHamburgerButton_def
        showOriginalHeader_def setupResizeListener_def apparatus_present_def
        apparatus_absent_def nothing_hidden_def split: option.splits if_splits)

lemma new_handler_shape: "shape pg (new_handler opts)"
  by (simp add: shape_def new_handler_def apparatus_absent_def nothing_hidden_def
           split: option.splits)

lemma checkMobile_same:
  "isMobile h = (w \<le> mobileBreakpoint (options h)) \<Longrightarrow>
   isSmallMobile h = (w \<le> smallMobileBreakpoint (options h)) \<Longrightarrow> checkMobile w h = h"
  by (simp add: checkMobile_def)

lemma resize_callback_tracks:
  "options (resize_callback pg w h) = options h
   \<and> isMobile (resize_callback pg w h) = (w \<le> mobileBreakpoint (options h))
   \<and> isSmallMobile (resize_callback pg w h) = (w \<le> smallMobileBreakpoint (options h))"
  by (simp add: resize_callback_def Let_def) (simp add: checkMobile_def)

lemma resize_callback_settled:
  "resize_callback pg w (resize_callback pg w h) = resize_callback pg w h"
proof -
  let ?h = "resize_callback pg w h"
  have "checkMobile w ?h = ?h"
    using resize_callback_tracks[of pg w h] by (intro checkMobile_same) simp_all
  then show ?thesis
    by (simp add: resize_callback_def[of pg w ?h] Let_def)
qed

lemma funpow_settled:
  assumes "\<And>x. f (f x) = f x" and "1 \<le> n"
  shows "(f ^^ n) x = f x"
  using assms(2)
proof (induction n)
  case 0
  then show ?case by simp
next
  case (Suc n)
  show ?case
  proof (cases "n = 0")
    case True
    then show ?thesis by simp
  next
    case False
    with Suc.IH have "(f ^^ n) x = f x" by simp
    then show ?thesis by (simp add: assms(1))
  qed
qed

lemma resize_is_one_callback:
  "1 \<le> resize_listeners h \<Longrightarrow> resize pg w h = resize_callback pg w h"
  unfolding resize_def by (rule funpow_settled) (simp_all add: resize_callback_settled)

lemma resize_callback_shape: "shape pg h \<Longrightarrow> shape pg (resize_callback pg w h)"
proof -
  assume s: "shape pg h"
  have c: "shape pg (checkMobile w h)" if "isMobile (checkMobile w h) = isMobile h"
    using s that
    by (auto simp: shape_def checkMobile_def apparatus_present_def apparatus_absent_def
          nothing_hidden_def split: option.splits if_splits)
  have m: "shape pg (handler_setup pg w (checkMobile w h))"
  proof -
    have "handler_setup pg w (checkMobile w h) = handler_setup pg w h"
      by (simp add: handler_setup_def checkMobile_def Let_def)
    then show ?thesis using setup_shape[OF s] by simp
  qed
  show ?thesis
    using c m by (auto simp: resize_callback_def Let_def)
qed

lemma resize_callback_listeners:
  "resize_listeners h \<le> resize_listeners (resize_callback pg w h)"
  by (simp add: resize_callback_def Let_def) (simp add: checkMobile_def)

lemma after_resizes_invariant:
  "shape pg (after_resizes pg opts w0 ws)
   \<and> options (after_resizes pg opts w0 ws) = opts
   \<and> 1 \<le> resize_listeners (after_resizes pg opts w0 ws)
   \<and> isMobile (after_resizes pg opts w0 ws) = (last (w0 # ws) \<le> mobileBreakpoint opts)"
proof (induction ws rule: rev_induct)
  case Nil
  then show ?case
    using setup_shape[OF new_handler_shape[of pg opts], of w0]
    by (simp add: after_resizes_def) (simp add: new_handler_def)
next
  case (snoc w ws)
  let ?h = "after_resizes pg opts w0 ws"
  have step: "after_resizes pg opts w0 (ws @ [w]) = resize_callback pg w ?h"
    using snoc.IH by (simp add: after_resizes_def resize_is_one_callback)
  show ?case
    unfolding step
    using snoc.IH resize_callback_shape[of pg ?h w] resize_callback_tracks[of pg w ?h]
          resize_callback_listeners[of ?h pg w]
    by simp
qed

section \<open>Claims\<close>

text \<open>
  C1 on the certificate gallery, for a fetch answered with status 404 (and likewise for
  a 200 whose body does not parse): \<open>loadCertificates\<close> puts the error message into the
  container, and the \<open>renderCertificates\<close> that \<open>init\<close> runs next empties the container
  again, so that when initialization completes the container holds no error message
  (and no cards).
\<close>

theorem certificate_error_message_erased:
  "container (loadCertificates (Some (Response 404 None)) sample_manager)
     = [ErrorP ''Failed to load certificates. Please check /static/data/cert.json.'']
   \<and> init (Some (Response 404 None)) (new_manager ''/static/data/cert.json'' 800 [])
     = sample_manager\<lparr>container := []\<rparr>
   \<and> filter is_error (container (init (Some (Response 404 None))
                                    (new_manager ''/static/data/cert.json'' 800 []))) = []
   \<and> init (Some (Response 200 None)) (new_manager ''/static/data/cert.json'' 800 [])
     = sample_manager\<lparr>container := []\<rparr>"
  by (simp add: init_def loadCertificates_def ok_def renderCertificates_container
                sample_manager_def cert_createModal_def new_manager_def cert_load_error_def
                indexed_def)

text \<open>
  C2. For a container of width 800 with 5 records (gap 16, horizontal padding 24)
  \<open>calculateCardWidth\<close> returns \<open>max 120 ((800 - 24 - 4 * 16) / 5) = 142.4\<close>; for the same
  container with exactly one record it returns \<open>min 300 (800 - 24) = 300\<close>; and for any
  width and any \<open>n \<ge> 2\<close> records the per-card width is
  \<open>max 120 ((containerWidth - 24 - 16 * (n - 1)) / n)\<close>.
\<close>

theorem calculateCardWidth_spec:
  "calculateCardWidth 800 5 = max 120 ((800 - 24 - 4 * 16) / 5)
   \<and> calculateCardWidth 800 5 = 142.4
   \<and> calculateCardWidth 800 1 = min 300 (800 - 24)
   \<and> calculateCardWidth 800 1 = 300
   \<and> (2 \<le> n \<longrightarrow>
        calculateCardWidth w n = max 120 ((real_of_int w - 24 - 16 * (real n - 1)) / real n))"
  by (simp add: calculateCardWidth_def Let_def)

text \<open>C2 at a concrete input: width 1000 and 4 records give \<open>(1000 - 24 - 48) / 4 = 232\<close>.\<close>

theorem calculateCardWidth_spec_witness:
  "(2::nat) \<le> 4 \<and> calculateCardWidth 1000 4 = 232"
  using calculateCardWidth_spec [of 4 1000] by simp

text \<open>
  C3, as stated, fails. At the scroll position 0.8 (as a double), with two sections whose
  tops are 100 and 200 below the top of the viewport, both sections are at the distance
  50 from the trigger point, a tie; the first should be chosen. The script computes the
  distances in doubles, where the first comes out a little above 50 and the second as
  50, and marks the second link.
\<close>

theorem tie_decided_by_rounding:
  "exact_distance tied_document fractional_scroll ''about'' = 50
   \<and> exact_distance tied_document fractional_scroll ''projects'' = 50
   \<and> distance tied_document fractional_scroll ''about'' = Some (3518437208883201 / 70368744177664)
   \<and> distance tied_document fractional_scroll ''projects'' = Some 50
   \<and> fst (find_active tied_document fractional_scroll (sections sample_navigator)) = 1
   \<and> is_inactive (navLinks (updateHighlighting tied_document fractional_scroll sample_navigator) ! 0)
   \<and> is_active (navLinks (updateHighlighting tied_document fractional_scroll sample_navigator) ! 1)"
proof -
  have x: "exact_distance tied_document fractional_scroll ''about'' = 50"
          "exact_distance tied_document fractional_scroll ''projects'' = 50"
    by (simp_all add: exact_distance_def triggerPoint_def sectionTop_def rect_top_of_def
          tied_document_def CONFIG_def)
  have d1: "distance tied_document fractional_scroll ''about''
              = Some (3518437208883201 / 70368744177664)"
    by (simp add: evaluate_distance tied_document_def fractional_scroll_def)
  have d2: "distance tied_document fractional_scroll ''projects'' = Some 50"
    by (simp add: evaluate_distance tied_document_def fractional_scroll_def)
  have fa: "find_active tied_document fractional_scroll (sections sample_navigator) = (1, Some 50)"
    by (simp add: sample_navigator_eval find_active_pair d1 d2)
  have n: "sections sample_navigator \<noteq> []" "0 < length (navLinks sample_navigator)"
          "1 < length (navLinks sample_navigator)"
    by (simp_all add: sample_navigator_eval)
  have l0: "is_inactive (navLinks (updateHighlighting tied_document fractional_scroll sample_navigator) ! 0)"
    using highlighted_nth[OF n(1) n(2), of tied_document fractional_scroll] fa
    by (simp add: is_inactive_def)
  have l1: "is_active (navLinks (updateHighlighting tied_document fractional_scroll sample_navigator) ! 1)"
    using highlighted_nth[OF n(1) n(3), of tied_document fractional_scroll] fa
    by (simp add: is_active_def)
  show ?thesis using x d1 d2 fa l0 l1 by simp
qed

text \<open>
  C3, amended. With no resolved section the highlighting pass changes nothing.
  Otherwise, for every scroll position and every layout, the pass picks one index \<open>k\<close>
  among the sections: no section has a smaller distance \<open>\<bar>triggerPoint - sectionTop\<bar>\<close>
  than the section at \<open>k\<close>, and every section before it has a greater one (so the first
  wins among equal distances), the distances being those the script computes in
  double-precision arithmetic: the trigger point and the section top each a rounded sum,
  the distance their rounded difference. Among the links (at least as many as the
  sections, as the setup leaves them) exactly the link at index \<open>k\<close> gets the active
  style while every other link gets the inactive style.
\<close>

theorem highlighting_closest_section:
  "(sections nv = [] \<longrightarrow> updateHighlighting doc y nv = nv)
   \<and> (sections nv \<noteq> [] \<and> length (sections nv) \<le> length (navLinks nv) \<longrightarrow>
        (\<exists>k < length (sections nv).
            fst (find_active doc y (sections nv)) = k
            \<and> (\<forall>j < length (sections nv).
                  \<not> below (distance doc y (sections nv ! j)) (distance doc y (sections nv ! k)))
            \<and> (\<forall>j < k. below (distance doc y (sections nv ! k)) (distance doc y (sections nv ! j)))
            \<and> length (navLinks (updateHighlighting doc y nv)) = length (navLinks nv)
            \<and> (\<forall>i < length (navLinks nv).
                  is_active (navLinks (updateHighlighting doc y nv) ! i) = (i = k)
                  \<and> is_inactive (navLinks (updateHighlighting doc y nv) ! i) = (i \<noteq> k)
                  \<and> href (navLinks (updateHighlighting doc y nv) ! i) = href (navLinks nv ! i))))"
proof (intro conjI impI)
  assume "sections nv = []"
  then show "updateHighlighting doc y nv = nv"
    by (simp add: updateHighlighting_def)
next
  assume h: "sections nv \<noteq> [] \<and> length (sections nv) \<le> length (navLinks nv)"
  then obtain k where
    fa: "find_active doc y (sections nv) = (k, distance doc y (sections nv ! k))"
    and k: "k < length (sections nv)"
    and le: "\<forall>j < length (sections nv).
               \<not> below (distance doc y (sections nv ! j)) (distance doc y (sections nv ! k))"
    and lt: "\<forall>j < k. below (distance doc y (sections nv ! k)) (distance doc y (sections nv ! j))"
    using find_active_first_minimum[of "sections nv" doc y] by blast
  have links: "\<forall>i < length (navLinks nv).
                  is_active (navLinks (updateHighlighting doc y nv) ! i) = (i = k)
                  \<and> is_inactive (navLinks (updateHighlighting doc y nv) ! i) = (i \<noteq> k)
                  \<and> href (navLinks (updateHighlighting doc y nv) ! i) = href (navLinks nv ! i)"
    using h fa active_not_inactive
    by (auto simp: highlighted_nth is_active_def is_inactive_def)
  show "\<exists>k < length (sections nv).
            fst (find_active doc y (sections nv)) = k
            \<and> (\<forall>j < length (sections nv).
                  \<not> below (distance doc y (sections nv ! j)) (distance doc y (sections nv ! k)))
            \<and> (\<forall>j < k. below (distance doc y (sections nv ! k)) (distance doc y (sections nv ! j)))
            \<and> length (navLinks (updateHighlighting doc y nv)) = length (navLinks nv)
            \<and> (\<forall>i < length (navLinks nv).
                  is_active (navLinks (updateHighlighting doc y nv) ! i) = (i = k)
                  \<and> is_inactive (navLinks (updateHighlighting doc y nv) ! i) = (i \<noteq> k)
                  \<and> href (navLinks (updateHighlighting doc y nv) ! i) = href (navLinks nv ! i))"
    using k fa le lt links updateHighlighting_keeps[of doc y nv]
    by (intro exI[of _ k]) simp
qed

text \<open>
  C3, amended, at concrete inputs: on the scrolled sample page the second section is the
  closest and its link is the active one; at scroll position 900 the two sections of the
  tied layout have the same computed distance 50, and the first is chosen.
\<close>

theorem highlighting_closest_section_witness:
  "sections sample_navigator \<noteq> []
   \<and> length (sections sample_navigator) \<le> length (navLinks sample_navigator)
   \<and> fst (find_active scrolled_document 1150 (sections sample_navigator)) = 1
   \<and> is_inactive (navLinks (updateHighlighting scrolled_document 1150 sample_navigator) ! 0)
   \<and> is_active (navLinks (updateHighlighting scrolled_document 1150 sample_navigator) ! 1)
   \<and> distance tied_document 900 ''about'' = Some 50
   \<and> distance tied_document 900 ''projects'' = Some 50
   \<and> fst (find_active tied_document 900 (sections sample_navigator)) = 0
   \<and> is_active (navLinks (updateHighlighting tied_document 900 sample_navigator) ! 0)"
proof -
  have e: "sections sample_navigator \<noteq> []
   \<and> length (sections sample_navigator) \<le> length (navLinks sample_navigator)
   \<and> fst (find_active scrolled_document 1150 (sections sample_navigator)) = 1
   \<and> distance tied_document 900 ''about'' = Some 50
   \<and> distance tied_document 900 ''projects'' = Some 50
   \<and> fst (find_active tied_document 900 (sections sample_navigator)) = 0"
  proof -
    have s1: "distance scrolled_document 1150 ''about'' = Some 300"
      by (simp add: evaluate_distance scrolled_document_def)
    have s2: "distance scrolled_document 1150 ''projects'' = Some 0"
      by (simp add: evaluate_distance scrolled_document_def)
    have t1: "distance tied_document 900 ''about'' = Some 50"
      by (simp add: evaluate_distance tied_document_def)
    have t2: "distance tied_document 900 ''projects'' = Some 50"
      by (simp add: evaluate_distance tied_document_def)
    show ?thesis
      by (simp add: sample_navigator_eval find_active_pair s1 s2 t1 t2)
  qed
  show ?thesis
    using e highlighting_closest_section [of sample_navigator scrolled_document 1150]
          highlighting_closest_section [of sample_navigator tied_document 900]
    by (auto simp: sample_navigator_eval)
qed

text \<open>
  C4. Take a handler built with any options on any page, set up at any width and then
  resized through any widths, and let \<open>W\<close> be the last of these widths. The handler is
  in mobile mode if and only if \<open>W\<close> is at most the configured mobile breakpoint (900
  by default). Exactly one of the two holds: the original header is visible (the handler
  has not hidden the header it located), or the hamburger button, the drawer and the
  backdrop are all present, once each. The apparatus is never partly present. It is
  present exactly in mobile mode on a page where the header lookup succeeds; on a page
  where no selector matches, nothing is built and nothing is hidden.
\<close>

theorem mobile_mode_exactly_one:
  "isMobile (after_resizes pg opts w0 ws) = (last (w0 # ws) \<le> mobileBreakpoint opts)
   \<and> mobileBreakpoint default_options = 900
   \<and> original_header_visible (after_resizes pg opts w0 ws)
        \<noteq> apparatus_present (after_resizes pg opts w0 ws)
   \<and> apparatus_absent (after_resizes pg opts w0 ws)
        \<noteq> apparatus_present (after_resizes pg opts w0 ws)
   \<and> apparatus_present (after_resizes pg opts w0 ws)
        = (isMobile (after_resizes pg opts w0 ws) \<and> first_match pg (headerSelectors opts) \<noteq> None)"
proof -
  let ?h = "after_resizes pg opts w0 ws"
  have inv: "shape pg ?h" "options ?h = opts"
    "isMobile ?h = (last (w0 # ws) \<le> mobileBreakpoint opts)"
    using after_resizes_invariant[of pg opts w0 ws] by simp_all
  have a: "original_header_visible ?h \<noteq> apparatus_present ?h"
    using inv(1,2)
    by (auto simp: shape_def original_header_visible_def apparatus_present_def
          apparatus_absent_def nothing_hidden_def split: option.splits if_splits)
  have b: "apparatus_absent ?h \<noteq> apparatus_present ?h"
    using inv(1,2)
    by (auto simp: shape_def apparatus_present_def apparatus_absent_def
          split: option.splits if_splits)
  have c: "apparatus_present ?h = (isMobile ?h \<and> first_match pg (headerSelectors opts) \<noteq> None)"
    using inv(1,2)
    by (auto simp: shape_def apparatus_present_def apparatus_absent_def
          split: option.splits if_splits)
  show ?thesis using inv(3) a b c by (simp add: default_options_def)
qed

text \<open>
  C4 at the sample page with the default options: set up at width 1200, a resize to 800
  crosses into mobile mode (header hidden, apparatus present), a further resize to 1000
  crosses back (header visible, apparatus gone).
\<close>

theorem mobile_mode_exactly_one_witness:
  "isMobile (after_resizes sample_host default_options 1200 [800])
   \<and> apparatus_present (after_resizes sample_host default_options 1200 [800])
   \<and> \<not> original_header_visible (after_resizes sample_host default_options 1200 [800])
   \<and> \<not> isMobile (after_resizes sample_host default_options 1200 [800, 1000])
   \<and> apparatus_absent (after_resizes sample_host default_options 1200 [800, 1000])
   \<and> original_header_visible (after_resizes sample_host default_options 1200 [800, 1000])"
  using mobile_mode_exactly_one [of sample_host default_options 1200 "[800]"]
        mobile_mode_exactly_one [of sample_host default_options 1200 "[800, 1000]"]
  by (simp add: default_options_def sample_host_def)

text \<open>
  C5. For every project record whose \<open>huggingface\<close> (or \<open>hugging_face\<close>) field is set
  (a non-empty string) and whose \<open>github\<close> field is not, the card has exactly one
  button, the Hugging Face one, and the detail overlay (once created) opens with the
  model-repository block revealed, linked to that field, and the source-repository block
  hidden. Whenever \<open>github\<close> is set the card's one button is the GitHub one, whatever
  the other two fields hold.
\<close>

theorem huggingface_only_card_and_overlay:
  "(\<not> truthy (github p) \<and> (truthy (huggingface p) \<or> truthy (hugging_face p)) \<longrightarrow>
      buttons (createProjectCard p i) = [HuggingfaceBtn]
      \<and> (modal pm = Some m \<longrightarrow>
           (\<exists>pm' m'. showProjectModal (Some p) pm = Inr pm' \<and> modal pm' = Some m'
               \<and> \<not> modal_hidden m' \<and> \<not> huggingface_hidden m' \<and> github_hidden m'
               \<and> Some (huggingface_href m') = js_or_field (huggingface p) (hugging_face p))))
   \<and> (truthy (github p) \<longrightarrow> buttons (createProjectCard p i) = [GithubBtn])"
proof (intro conjI impI)
  assume h: "\<not> truthy (github p) \<and> (truthy (huggingface p) \<or> truthy (hugging_face p))"
  then show "buttons (createProjectCard p i) = [HuggingfaceBtn]"
    by (simp add: createProjectCard_def Let_def)
next
  assume h: "\<not> truthy (github p) \<and> (truthy (huggingface p) \<or> truthy (hugging_face p))"
    and m: "modal pm = Some m"
  from h have t: "truthy (js_or_field (huggingface p) (hugging_face p))"
    by (auto simp: js_or_field_def)
  then obtain l where l: "js_or_field (huggingface p) (hugging_face p) = Some l"
    by (cases "js_or_field (huggingface p) (hugging_face p)") auto
  show "\<exists>pm' m'. showProjectModal (Some p) pm = Inr pm' \<and> modal pm' = Some m'
               \<and> \<not> modal_hidden m' \<and> \<not> huggingface_hidden m' \<and> github_hidden m'
               \<and> Some (huggingface_href m') = js_or_field (huggingface p) (hugging_face p)"
    using h m t l by (simp add: showProjectModal_def Let_def)
next
  assume "truthy (github p)"
  then show "buttons (createProjectCard p i) = [GithubBtn]"
    by (simp add: createProjectCard_def Let_def)
qed

text \<open>
  C5 at concrete inputs: the sample record (only \<open>huggingface\<close> set) on the sample page,
  and the same record with \<open>github\<close> set as well.
\<close>

theorem huggingface_only_card_and_overlay_witness:
  "\<not> truthy (github sample_project) \<and> truthy (huggingface sample_project)
   \<and> modal sample_page = Some empty_modal
   \<and> buttons (createProjectCard sample_project 0) = [HuggingfaceBtn]
   \<and> (\<exists>pm' m'. showProjectModal (Some sample_project) sample_page = Inr pm' \<and> modal pm' = Some m'
          \<and> \<not> huggingface_hidden m' \<and> github_hidden m'
          \<and> huggingface_href m' = ''https://huggingface.co/u/seg'')
   \<and> truthy (github (sample_project\<lparr>github := Some ''https://github.com/u/seg''\<rparr>))
   \<and> buttons (createProjectCard (sample_project\<lparr>github := Some ''https://github.com/u/seg''\<rparr>) 0)
        = [GithubBtn]"
  using huggingface_only_card_and_overlay [of sample_project 0 sample_page empty_modal]
        huggingface_only_card_and_overlay
          [of "sample_project\<lparr>github := Some ''https://github.com/u/seg''\<rparr>" 0 sample_page empty_modal]
  by (auto simp: sample_project_def sample_page_def js_or_field_def)

text \<open>
  C6. For an unchanged record array, rendering, then letting the container hold
  anything at all, then rendering again gives the same number of cards and the same text
  (whatever text the browser shows for a card's markup) as rendering once; indeed the
  same page. This holds for the project gallery, and for
  the certificate gallery, where the number of cards (one per record) and the text stay
  the same even when the container's width changed in between.
\<close>

theorem render_idempotent:
  "card_count (renderProjects (set_container junk (renderProjects pm))) = card_count (renderProjects pm)
   \<and> container_text shown (renderProjects (set_container junk (renderProjects pm)))
        = container_text shown (renderProjects pm)
   \<and> renderProjects (set_container junk (renderProjects pm)) = renderProjects pm
   \<and> cert_card_count (renderCertificates ((renderCertificates cm)\<lparr>container := cjunk, offsetWidth := w\<rparr>))
        = cert_card_count (renderCertificates cm)
   \<and> cert_container_text (renderCertificates ((renderCertificates cm)\<lparr>container := cjunk, offsetWidth := w\<rparr>))
        = cert_container_text (renderCertificates cm)
   \<and> cert_card_count (renderCertificates cm) = length (certificates cm)
   \<and> renderCertificates ((renderCertificates cm)\<lparr>container := cjunk\<rparr>) = renderCertificates cm"
proof -
  have p: "renderProjects (set_container junk (renderProjects pm)) = renderProjects pm"
    by (rule renderProjects_overwrites)
  have c: "renderCertificates ((renderCertificates cm)\<lparr>container := cjunk\<rparr>) = renderCertificates cm"
    by (simp add: renderCertificates_container)
  have recs: "certificates ((renderCertificates cm)\<lparr>container := cjunk, offsetWidth := w\<rparr>)
                = certificates cm"
    by (simp add: renderCertificates_container)
  have n: "cert_card_count (renderCertificates ((renderCertificates cm)\<lparr>container := cjunk, offsetWidth := w\<rparr>))
             = cert_card_count (renderCertificates cm)"
    by (simp only: renderCertificates_count recs)
  have t: "cert_container_text (renderCertificates ((renderCertificates cm)\<lparr>container := cjunk, offsetWidth := w\<rparr>))
             = cert_container_text (renderCertificates cm)"
    by (simp only: renderCertificates_text recs)
  show ?thesis
    unfolding p c using n t by (simp add: renderCertificates_count)
qed

text \<open>
  C7 on a browser that supports \<open>scrollIntoView\<close>, for a click on the link to a section
  whose top edge is at 1000: the default navigation is prevented and the handler asks
  for \<open>scrollIntoView\<close> with \<open>block: 'start'\<close>, which ends with the section's top edge
  at the top of the viewport, at 1000, and not at 1000 - 80 = 920. The header offset is
  applied only on the fallback path, taken when \<open>scrollIntoView\<close> throws, which asks
  for 920.
\<close>

theorem click_scroll_ignores_header_offset:
  "nav_click modern_browser sample_document 0 (plain_link ''#about'') sample_navigator
     = (\<lparr> defaultPrevented = True, scroll = Some (ScrollIntoView ''about''),
           highlight_after = Some 100 \<rparr>,
        sample_navigator\<lparr>clickEventCount := 1\<rparr>)
   \<and> destination sample_document 0 (ScrollIntoView ''about'') = 1000
   \<and> sectionTop sample_document 0 ''about'' - headerOffset CONFIG = 920
   \<and> scroll (fst (nav_click (modern_browser\<lparr>scrollIntoView_throws := True\<rparr>) sample_document 0
                     (plain_link ''#about'') sample_navigator))
       = Some (ScrollToSmooth 920)"
  by (simp add: nav_click_def modern_browser_def sample_document_def plain_link_def
                getElementById_def sample_navigator_eval rect_top_of_def sectionTop_def
                CONFIG_def Let_def)

text \<open>
  C8, as stated, fails: a certificate without a description opens the overlay with the
  text \<open>No description available.\<close>, not with an empty description, and a project
  without an image, on a page where the three shared ids are the project overlay's own,
  opens it with the placeholder image, not with an empty one.
\<close>

theorem absent_field_not_empty:
  "cert_description sample_certificate = None
   \<and> showModal sample_certificate sample_manager
       = Inr (sample_manager\<lparr> cmodal := Some \<lparr> modalTitle = ''Deep Learning'',
                                                modalIssuer = ''Issued by Coursera'',
                                                modalDesc = ''No description available.'',
                                                modalImage = [],
                                                display = ''flex'',
                                                closeBtn_focused = True \<rparr>,
                               cert_body_overflow := ''hidden'' \<rparr>)
   \<and> image sample_project = None
   \<and> on_click (OnCard 0) sample_page
       = Inr (sample_page\<lparr> modal := Some \<lparr> modal_title = ''Segmenter'',
                                            modal_image = placeholder,
                                            modal_description = [],
                                            github_hidden = True, github_href = [],
                                            huggingface_hidden = False,
                                            huggingface_href = ''https://huggingface.co/u/seg'',
                                            modal_hidden = False, modal_flex = True \<rparr>,
                            body_overflow := ''hidden'' \<rparr>)
   \<and> placeholder \<noteq> []"
  by (simp add: showModal_def sample_certificate_def sample_manager_def cert_createModal_def
                new_manager_def on_click_def at_index_def sample_page_def sample_project_def
                showProjectModal_def empty_modal_def js_or_field_def placeholder_def
                assign_by_id_def Let_def)

text \<open>
  C8, amended. Opening the detail overlay (by a click on the card, once the overlay
  exists) never raises an error for a record with absent optional fields. An absent
  certificate name, issuer or image gives an empty title, issuer line or image URL, and
  an absent certificate description gives the text \<open>No description available.\<close>. An
  absent project title or description gives empty text and an absent project image gives
  the placeholder image, in the element that the id \<open>modal-title\<close>,
  \<open>modal-description\<close> or \<open>modal-image\<close> resolves to in the document: the project
  overlay's own element when no earlier element of the page carries the id, and
  otherwise that earlier element (the certificate overlay's, when it comes first), the
  project overlay's own element then staying as it was. An absent \<open>github\<close> field
  leaves the source-repository block hidden, and with both \<open>huggingface\<close> and
  \<open>hugging_face\<close> absent the model-repository block stays hidden.
\<close>

theorem absent_fields_in_overlay:
  "(cmodal cm = Some m \<longrightarrow>
      (\<exists>cm' m'. card_click cert cm = Inr cm' \<and> cmodal cm' = Some m'
          \<and> (name cert = None \<longrightarrow> modalTitle m' = [])
          \<and> (issuer cert = None \<longrightarrow> modalIssuer m' = [])
          \<and> (cert_image cert = None \<longrightarrow> modalImage m' = [])
          \<and> (cert_description cert = None \<longrightarrow> modalDesc m' = ''No description available.'')))
   \<and> (modal pm = Some pmo \<and> at_index (projects pm) i = Some p \<longrightarrow>
      (\<exists>pm' m'. on_click (OnCard i) pm = Inr pm' \<and> modal pm' = Some m'
          \<and> (title p = None \<longrightarrow> resolved (earlier_title pm') (modal_title m') = [])
          \<and> (description p = None \<longrightarrow>
                resolved (earlier_description pm') (modal_description m') = [])
          \<and> (image p = None \<longrightarrow> resolved (earlier_image pm') (modal_image m') = placeholder)
          \<and> (earlier_title pm = None \<longrightarrow>
                earlier_title pm' = None \<and> modal_title m' = as_textContent (title p))
          \<and> (earlier_description pm = None \<longrightarrow>
                earlier_description pm' = None
                \<and> modal_description m' = as_textContent (description p))
          \<and> (earlier_image pm = None \<longrightarrow>
                earlier_image pm' = None \<and> modal_image m' = js_or (image p) placeholder)
          \<and> (earlier_title pm \<noteq> None \<longrightarrow>
                earlier_title pm' = Some (as_textContent (title p))
                \<and> modal_title m' = modal_title pmo)
          \<and> (earlier_description pm \<noteq> None \<longrightarrow>
                earlier_description pm' = Some (as_textContent (description p))
                \<and> modal_description m' = modal_description pmo)
          \<and> (earlier_image pm \<noteq> None \<longrightarrow>
                earlier_image pm' = Some (js_or (image p) placeholder)
                \<and> modal_image m' = modal_image pmo)
          \<and> (github p = None \<longrightarrow> github_hidden m')
          \<and> (huggingface p = None \<and> hugging_face p = None \<longrightarrow> huggingface_hidden m')))"
proof (intro conjI impI)
  assume "cmodal cm = Some m"
  then show "\<exists>cm' m'. card_click cert cm = Inr cm' \<and> cmodal cm' = Some m'
          \<and> (name cert = None \<longrightarrow> modalTitle m' = [])
          \<and> (issuer cert = None \<longrightarrow> modalIssuer m' = [])
          \<and> (cert_image cert = None \<longrightarrow> modalImage m' = [])
          \<and> (cert_description cert = None \<longrightarrow> modalDesc m' = ''No description available.'')"
    by (simp add: card_click_def showModal_def)
next
  assume h: "modal pm = Some pmo \<and> at_index (projects pm) i = Some p"
  define t where "t = as_textContent (title p)"
  define d where "d = as_textContent (description p)"
  define u where "u = js_or (image p) placeholder"
  have absent: "title p = None \<longrightarrow> t = []" "description p = None \<longrightarrow> d = []"
    "image p = None \<longrightarrow> u = placeholder"
    by (simp_all add: t_def d_def u_def)
  have res: "resolved (fst (assign_by_id e own v)) (snd (assign_by_id e own v)) = v"
    for e own v
    by (simp add: resolved_def assign_by_id_def split: option.splits)
  have own: "e = None \<longrightarrow> fst (assign_by_id e own v) = None \<and> snd (assign_by_id e own v) = v"
    for e own v
    by (simp add: assign_by_id_def)
  have other: "e \<noteq> None \<longrightarrow> fst (assign_by_id e own v) = Some v \<and> snd (assign_by_id e own v) = own"
    for e :: "string option" and own v
    by (auto simp: assign_by_id_def)
  show "\<exists>pm' m'. on_click (OnCard i) pm = Inr pm' \<and> modal pm' = Some m'
          \<and> (title p = None \<longrightarrow> resolved (earlier_title pm') (modal_title m') = [])
          \<and> (description p = None \<longrightarrow>
                resolved (earlier_description pm') (modal_description m') = [])
          \<and> (image p = None \<longrightarrow> resolved (earlier_image pm') (modal_image m') = placeholder)
          \<and> (earlier_title pm = None \<longrightarrow>
                earlier_title pm' = None \<and> modal_title m' = as_textContent (title p))
          \<and> (earlier_description pm = None \<longrightarrow>
                earlier_description pm' = None
                \<and> modal_description m' = as_textContent (description p))
          \<and> (earlier_image pm = None \<longrightarrow>
                earlier_image pm' = None \<and> modal_image m' = js_or (image p) placeholder)
          \<and> (earlier_title pm \<noteq> None \<longrightarrow>
                earlier_title pm' = Some (as_textContent (title p))
                \<and> modal_title m' = modal_title pmo)
          \<and> (earlier_description pm \<noteq> None \<longrightarrow>
                earlier_description pm' = Some (as_textContent (description p))
                \<and> modal_description m' = modal_description pmo)
          \<and> (earlier_image pm \<noteq> None \<longrightarrow>
                earlier_image pm' = Some (js_or (image p) placeholder)
                \<and> modal_image m' = modal_image pmo)
          \<and> (github p = None \<longrightarrow> github_hidden m')
          \<and> (huggingface p = None \<and> hugging_face p = None \<longrightarrow> huggingface_hidden m')"
    using h absent res own other
    unfolding t_def d_def u_def
    by (simp add: on_click_def showProjectModal_def Let_def js_or_field_def)
qed

text \<open>
  C8, amended, at the sample certificate, at the sample project on a page of its own,
  and at the sample project on the page shared with the certificate overlay, where the
  placeholder lands in the earlier element and the project overlay's own image stays
  empty.
\<close>

theorem absent_fields_in_overlay_witness:
  "cmodal sample_manager \<noteq> None \<and> cert_image sample_certificate = None
   \<and> cert_description sample_certificate = None
   \<and> (\<exists>cm' m'. card_click sample_certificate sample_manager = Inr cm' \<and> cmodal cm' = Some m'
          \<and> modalImage m' = [] \<and> modalDesc m' = ''No description available.'')
   \<and> modal sample_page = Some empty_modal \<and> at_index (projects sample_page) 0 = Some sample_project
   \<and> description sample_project = None \<and> image sample_project = None \<and> github sample_project = None
   \<and> earlier_image sample_page = None
   \<and> (\<exists>pm' m'. on_click (OnCard 0) sample_page = Inr pm' \<and> modal pm' = Some m'
          \<and> modal_description m' = [] \<and> modal_image m' = placeholder \<and> github_hidden m')
   \<and> earlier_image sample_shared_page \<noteq> None
   \<and> (\<exists>pm' m'. on_click (OnCard 0) sample_shared_page = Inr pm' \<and> modal pm' = Some m'
          \<and> earlier_image pm' = Some placeholder \<and> modal_image m' = [] \<and> github_hidden m')"
  using absent_fields_in_overlay
          [of sample_manager "the (cmodal sample_manager)" sample_certificate
              sample_page empty_modal 0 sample_project]
        absent_fields_in_overlay
          [of sample_manager "the (cmodal sample_manager)" sample_certificate
              sample_shared_page empty_modal 0 sample_project]
  by (auto simp: sample_manager_def cert_createModal_def new_manager_def sample_certificate_def
                 sample_page_def sample_shared_page_def sample_project_def at_index_def
                 empty_modal_def placeholder_def)

text \<open>
  C9, as stated, fails for the project gallery: with the sample page showing its one
  card, Enter and Space leave the page as it is, while a click on the card opens the
  overlay.
\<close>

theorem project_card_key_not_click:
  "on_keydown ''Enter'' sample_page = sample_page
   \<and> on_keydown '' '' sample_page = sample_page
   \<and> on_click (OnCard 0) sample_page \<noteq> Inr sample_page
   \<and> on_click (OnCard 0) sample_page \<noteq> Inr (on_keydown ''Enter'' sample_page)"
  by (simp add: on_keydown_def on_click_def at_index_def sample_page_def sample_project_def
                showProjectModal_def empty_modal_def js_or_field_def assign_by_id_def Let_def)

text \<open>
  C9, amended. For every certificate card, pressing Enter or Space on it does to the
  manager exactly what a click on it does (it opens the overlay with that record's
  fields), and cancels the key's default action. A project card cannot take the focus
  and has no key handler: Enter and Space reach only the document's key listener, which
  leaves the gallery as it is, so with the focus on no button they change nothing. With
  the focus on a card's action button, Enter or Space activates the button, the browser
  delivers that as a click on it, and the click listener answers it as it answers a
  click on the card itself: by opening the overlay with that card's record.
\<close>

theorem keyboard_activation:
  "(key = ''Enter'' \<or> key = '' '' \<longrightarrow>
      card_keydown key cert cm = (True, card_click cert cm)
      \<and> card_click cert cm = showModal cert cm)
   \<and> (key = ''Enter'' \<or> key = '' '' \<longrightarrow> on_keydown key pm = pm)
   \<and> ((key = ''Enter'' \<or> key = '' '') \<and> \<not> is_button focus \<longrightarrow> press_key key focus pm = Inr pm)
   \<and> (key = ''Enter'' \<or> key = '' '' \<longrightarrow>
        press_key key (OnGithubBtn i) pm = on_click (OnCard i) pm
        \<and> press_key key (OnHuggingfaceBtn i) pm = on_click (OnCard i) pm
        \<and> on_click (OnCard i) pm = showProjectModal (at_index (projects pm) i) pm)"
  by (auto simp: card_keydown_def card_click_def on_keydown_def press_key_def on_click_def)

text \<open>
  C9, amended, at the Enter key: on the sample certificate; on the sample page with the
  focus on the page body, where nothing happens; and with the focus on the card's
  Hugging Face button, where the overlay opens as for a click on the card.
\<close>

theorem keyboard_activation_witness:
  "card_keydown ''Enter'' sample_certificate sample_manager
     = (True, card_click sample_certificate sample_manager)
   \<and> (\<exists>cm'. card_click sample_certificate sample_manager = Inr cm'
          \<and> map_option modalTitle (cmodal cm') = Some ''Deep Learning'')
   \<and> on_keydown ''Enter'' sample_page = sample_page
   \<and> \<not> is_button Elsewhere \<and> \<not> is_button (OnCard 0)
   \<and> press_key ''Enter'' Elsewhere sample_page = Inr sample_page
   \<and> press_key ''Enter'' (OnHuggingfaceBtn 0) sample_page = on_click (OnCard 0) sample_page
   \<and> (\<exists>pm'. press_key ''Enter'' (OnHuggingfaceBtn 0) sample_page = Inr pm'
          \<and> map_option modal_hidden (modal pm') = Some False
          \<and> map_option modal_title (modal pm') = Some ''Segmenter'')"
  using keyboard_activation
          [of "''Enter''" sample_certificate sample_manager sample_page Elsewhere 0]
  by (simp add: card_click_def showModal_def sample_manager_def cert_createModal_def
                new_manager_def sample_certificate_def)
     (simp add: sample_page_def sample_project_def at_index_def showProjectModal_def
                empty_modal_def js_or_field_def assign_by_id_def Let_def)

text \<open>
  C10. \<open>removeProject(index)\<close> with an integer index outside \<open>[0, projects.length)\<close>
  leaves the manager (record array and page) as it was, so nothing is rendered again;
  with an index inside the range it removes exactly the record at that position (the
  records before it keep their place, the records after it move up by one, the length
  drops by one) and the result is the re-render of the shortened array.
\<close>

theorem removeProject_range:
  "(\<not> (0 \<le> index \<and> index < int (length (projects pm))) \<longrightarrow> removeProject index pm = pm)
   \<and> (0 \<le> index \<and> index < int (length (projects pm)) \<longrightarrow>
        (let ps = projects pm; ps' = projects (removeProject index pm); i = nat index in
           length ps' + 1 = length ps
           \<and> (\<forall>j < i. ps' ! j = ps ! j)
           \<and> (\<forall>j. i \<le> j \<and> j < length ps' \<longrightarrow> ps' ! j = ps ! (Suc j))
           \<and> removeProject index pm = renderProjects (pm\<lparr>projects := ps'\<rparr>)))"
proof (intro conjI impI)
  assume "\<not> (0 \<le> index \<and> index < int (length (projects pm)))"
  then show "removeProject index pm = pm"
    by (auto simp: removeProject_def)
next
  assume r: "0 \<le> index \<and> index < int (length (projects pm))"
  define ps where "ps = projects pm"
  define i where "i = nat index"
  have i: "i < length ps" using r unfolding i_def ps_def by linarith
  have proj_render: "projects (renderProjects q) = projects q" for q
    by (simp add: renderProjects_def Let_def split: option.splits)
  have sp: "splice index 1 ps = take i ps @ drop (Suc i) ps"
    using r splice_one_in_range[of index ps] by (simp add: ps_def i_def)
  have ps': "projects (removeProject index pm) = take i ps @ drop (Suc i) ps"
    using r sp by (simp add: removeProject_def proj_render ps_def)
  have len: "length (take i ps @ drop (Suc i) ps) + 1 = length ps"
    using i by simp
  have before: "\<forall>j < i. (take i ps @ drop (Suc i) ps) ! j = ps ! j"
    using i by (simp add: nth_append)
  have after: "\<forall>j. i \<le> j \<and> j < length (take i ps @ drop (Suc i) ps)
                 \<longrightarrow> (take i ps @ drop (Suc i) ps) ! j = ps ! (Suc j)"
    using i by (auto simp: nth_append min_def)
  have rr: "removeProject index pm = renderProjects (pm\<lparr>projects := take i ps @ drop (Suc i) ps\<rparr>)"
    using r sp by (simp add: removeProject_def ps_def)
  show "let ps = projects pm; ps' = projects (removeProject index pm); i = nat index in
           length ps' + 1 = length ps
           \<and> (\<forall>j < i. ps' ! j = ps ! j)
           \<and> (\<forall>j. i \<le> j \<and> j < length ps' \<longrightarrow> ps' ! j = ps ! (Suc j))
           \<and> removeProject index pm = renderProjects (pm\<lparr>projects := ps'\<rparr>)"
    unfolding Let_def ps' using len before after rr
    by (simp add: ps_def[symmetric] i_def[symmetric])
qed

text \<open>
  C10 at concrete inputs: on a page with two records, index 5 and index -1 change
  nothing, and index 0 leaves the second record alone, rendered as the one card.
\<close>

theorem removeProject_range_witness:
  "removeProject 5 sample_pair = sample_pair
   \<and> removeProject (- 1) sample_pair = sample_pair
   \<and> (0::int) \<le> 0 \<and> (0::int) < int (length (projects sample_pair))
   \<and> projects (removeProject 0 sample_pair) = [sample_project\<lparr>title := Some ''Tracker''\<rparr>]
   \<and> card_count (removeProject 0 sample_pair) = 1"
  using removeProject_range [of 5 sample_pair] removeProject_range [of "- 1" sample_pair]
        removeProject_range [of 0 sample_pair]
  by (simp add: sample_pair_def removeProject_def renderProjects_def splice_def Let_def
                indexed_def appendChild_def card_count_def container_nodes_def)

end
